theory Spec2Isabelle
  imports Complex_Main "HOL-Library.Word"
begin

section \<open>The stereo odometer node of fovis_ros\<close>

text \<open>
  A shallow embedding of \<^verbatim>\<open>fovis_ros/src/stereo_odometer.cpp\<close>: the class
  \<^verbatim>\<open>StereoOdometer\<close> with its three member functions \<^verbatim>\<open>initOdometer\<close>,
  \<^verbatim>\<open>mountAndPublish\<close> and \<^verbatim>\<open>imageCallback\<close>.

  The motion-estimation engine (fovis), the image conversion (cv_bridge), the camera
  model (image_geometry), the transform tree (tf) and the logging macros are libraries
  the class calls; what they hand back to the class for one image pair is an input of the
  model (the record \<open>Frame\<close>), and what the class hands to them is an \<open>event\<close> of the
  output trace.

  Numbers: a \<^verbatim>\<open>double\<close> is a real number here, so the arithmetic in double precision is
  exact. The one \<^verbatim>\<open>float\<close> of the node, \<^verbatim>\<open>dt\<close> of line 128, is the elapsed time
  rounded to single precision (\<open>to_float\<close>). A \<^verbatim>\<open>ros::Time\<close> is its number of
  nanoseconds; the 32-bit ranges of its two fields, and of the duration between two
  stamps, are left out. The library calls are taken to return: an exception thrown by
  cv_bridge, image_geometry or fovis is not an outcome of the model, while the four
  assertions of \<^verbatim>\<open>imageCallback\<close> are.
\<close>

subsection \<open>Geometry and message types\<close>

type_synonym time = nat

definition isZero :: "time \<Rightarrow> bool" where
  "isZero t = (t = 0)"

text \<open>\<^verbatim>\<open>(a - b).toSec()\<close>: the signed duration between two times, in seconds.\<close>

definition toSec_diff :: "time \<Rightarrow> time \<Rightarrow> real" where
  "toSec_diff a b = real_of_int (int a - int b) / 1000000000"

record Vector3 =
  vx :: real
  vy :: real
  vz :: real

record Quaternion =
  qx :: real
  qy :: real
  qz :: real
  qw :: real

definition zero_vector :: Vector3 where
  "zero_vector = \<lparr>vx = 0, vy = 0, vz = 0\<rparr>"

text \<open>
  \<^verbatim>\<open>fovis::CameraIntrinsicsParameters\<close> and \<^verbatim>\<open>fovis::StereoCalibrationParameters\<close>,
  with the fields the node fills. The rotation is the array of four numbers that
  fovis reads as a quaternion in the order w, x, y, z.
\<close>

record CameraIntrinsicsParameters =
  cx :: real
  cy :: real
  fx :: real
  fy :: real
  height :: nat
  width :: nat

record StereoCalibrationParameters =
  left_parameters :: CameraIntrinsicsParameters
  right_parameters :: CameraIntrinsicsParameters
  right_to_left_rotation :: "real list"
  right_to_left_translation :: "real list"

text \<open>
  What \<^verbatim>\<open>image_geometry::StereoCameraModel::fromCameraInfo\<close> gives for the two camera
  info messages: the pinhole parameters of each camera and the baseline. The heights and
  widths are those of the camera info messages themselves.
\<close>

record PinholeCameraModel =
  pin_cx :: real
  pin_cy :: real
  pin_fx :: real
  pin_fy :: real

record StereoCameraModel =
  left :: PinholeCameraModel
  right :: PinholeCameraModel
  baseline :: real

record CameraInfo =
  info_height :: nat
  info_width :: nat

subsection \<open>Narrowing to single precision\<close>

text \<open>
  The conversion of a \<^verbatim>\<open>double\<close> to a \<^verbatim>\<open>float\<close>: the nearest number with 24
  significant bits, a tie going to the even one. For a positive number \<open>a\<close> the exponent
  \<open>e\<close> is the one with \<open>2 powi e \<le> a < 2 powi (e + 1)\<close>, found by halving or doubling, and
  the numbers with 24 significant bits near \<open>a\<close> are the multiples of the quantum
  \<open>2 powi (e - 23)\<close>. The exponent is not bounded here; single precision bounds it below
  \<open>2 powi (- 126)\<close> and from \<open>2 powi 128\<close> on, where no duration between two stamps lies.
\<close>

function exponent_above :: "real \<Rightarrow> int" where
  "exponent_above x = (if x < 2 then 0 else exponent_above (x / 2) + 1)"
  by pat_completeness auto
termination
proof (relation "measure (\<lambda>x. nat \<lceil>x\<rceil>)")
  show "wf (measure (\<lambda>x. nat \<lceil>x\<rceil>))" by simp
next
  fix x :: real
  assume large: "\<not> x < 2"
  then have "x / 2 \<le> x - 1" by simp
  then have "\<lceil>x / 2\<rceil> \<le> \<lceil>x\<rceil> - 1"
    by (metis ceiling_diff_one ceiling_mono)
  moreover have "0 < \<lceil>x\<rceil>" using large by (simp add: ceiling_less_iff not_less)
  ultimately show "(x / 2, x) \<in> measure (\<lambda>x. nat \<lceil>x\<rceil>)" by simp
qed

function exponent_below :: "real \<Rightarrow> int" where
  "exponent_below x = (if x \<le> 0 \<or> 1 \<le> x then 0 else exponent_below (2 * x) - 1)"
  by pat_completeness auto
termination
proof (relation "measure (\<lambda>x. nat \<lceil>1 / x\<rceil>)")
  show "wf (measure (\<lambda>x. nat \<lceil>1 / x\<rceil>))" by simp
next
  fix x :: real
  assume "\<not> (x \<le> 0 \<or> 1 \<le> x)"
  then have x: "0 < x" "x < 1" by simp_all
  then have big: "1 < 1 / x" by simp
  have "\<lceil>1 / (2 * x)\<rceil> < \<lceil>1 / x\<rceil>"
  proof (cases "2 \<le> 1 / x")
    case True
    then have "1 / (2 * x) \<le> 1 / x - 1" using x by (simp add: field_simps)
    then have "\<lceil>1 / (2 * x)\<rceil> \<le> \<lceil>1 / x\<rceil> - 1"
      by (metis ceiling_diff_one ceiling_mono)
    then show ?thesis by simp
  next
    case False
    then have "1 / (2 * x) \<le> 1" using x by (simp add: field_simps)
    then have "\<lceil>1 / (2 * x)\<rceil> \<le> 1" by (simp add: ceiling_le_iff)
    moreover have "1 < \<lceil>1 / x\<rceil>" using big by (simp add: less_ceiling_iff)
    ultimately show ?thesis by linarith
  qed
  moreover have "0 < \<lceil>1 / x\<rceil>" using x by (simp add: less_ceiling_iff)
  ultimately show "(2 * x, x) \<in> measure (\<lambda>x. nat \<lceil>1 / x\<rceil>)" by simp
qed

definition float_exponent :: "real \<Rightarrow> int" where
  "float_exponent a = (if a < 1 then exponent_below a else exponent_above a)"

definition float_quantum :: "real \<Rightarrow> real" where
  "float_quantum a = 2 powi (float_exponent a - 23)"

definition round_half_even :: "real \<Rightarrow> int" where
  "round_half_even y =
     (let f = \<lfloor>y\<rfloor>; r = y - of_int f in
      if r < 1 / 2 then f else if 1 / 2 < r then f + 1 else if even f then f else f + 1)"

definition to_float :: "real \<Rightarrow> real" where
  "to_float x =
     (if x = 0 then 0
      else sgn x * (of_int (round_half_even (\<bar>x\<bar> / float_quantum \<bar>x\<bar>)) * float_quantum \<bar>x\<bar>))"

subsection \<open>initOdometer\<close>

text \<open>
  The calibration part of \<^verbatim>\<open>initOdometer\<close> (lines 72 to 97): the parameters handed to
  the constructors of \<^verbatim>\<open>fovis::StereoCalibration\<close> and \<^verbatim>\<open>fovis::Rectification\<close>.
\<close>

definition left_intrinsics :: "StereoCameraModel \<Rightarrow> CameraInfo \<Rightarrow> CameraIntrinsicsParameters" where
  "left_intrinsics m l_info =
     \<lparr>cx = pin_cx (left m), cy = pin_cy (left m),
      fx = pin_fx (left m), fy = pin_fy (left m),
      height = info_height l_info, width = info_width l_info\<rparr>"

definition right_intrinsics :: "StereoCameraModel \<Rightarrow> CameraInfo \<Rightarrow> CameraIntrinsicsParameters" where
  "right_intrinsics m r_info =
     \<lparr>cx = pin_cx (right m), cy = pin_cy (right m),
      fx = pin_fx (right m), fy = pin_fy (right m),
      height = info_height r_info, width = info_width r_info\<rparr>"

definition stereo_parameters ::
  "StereoCameraModel \<Rightarrow> CameraInfo \<Rightarrow> CameraInfo \<Rightarrow> StereoCalibrationParameters" where
  "stereo_parameters m l_info r_info =
     \<lparr>left_parameters = left_intrinsics m l_info,
      right_parameters = right_intrinsics m r_info,
      right_to_left_rotation = [1, 0, 0, 0],
      right_to_left_translation = [- baseline m, 0, 0]\<rparr>"

subsection \<open>The covariance loop\<close>

text \<open>
  Lines 144 to 146: for \<open>i\<close> from 0 to 5 and, inside, \<open>j\<close> from 0 to 5, the entry
  \<open>(i, j)\<close> of the engine's matrix is stored at index \<open>j * 6 + i\<close> of the array of 36
  numbers of the message. The matrix is read at indices below 6 only.
\<close>

definition fill_twist_covariance :: "(nat \<Rightarrow> nat \<Rightarrow> real) \<Rightarrow> real list \<Rightarrow> real list" where
  "fill_twist_covariance motion_cov cov0 =
     fold (\<lambda>i cov. fold (\<lambda>j c. c[j * 6 + i := motion_cov i j]) [0..<6] cov) [0..<6] cov0"

subsection \<open>Rigid transforms of the tf library\<close>

text \<open>
  Modelled from the spec: the classes \<^verbatim>\<open>tf::Matrix3x3\<close> and \<^verbatim>\<open>tf::Transform\<close> are not
  in the repository. The spec's rigid-body transform is a rotation plus a translation;
  here it is the library's pair of a 3 by 3 basis, kept as three rows, and an origin.
  The product applies the right factor first, the inverse transposes the basis, and the
  basis of a quaternion is the usual rotation matrix, scaled by the squared length.
\<close>

record Matrix3x3 =
  row0 :: Vector3
  row1 :: Vector3
  row2 :: Vector3

record Transform =
  basis :: Matrix3x3
  origin :: Vector3

definition dot :: "Vector3 \<Rightarrow> Vector3 \<Rightarrow> real" where
  "dot a b = vx a * vx b + vy a * vy b + vz a * vz b"

definition negate :: "Vector3 \<Rightarrow> Vector3" where
  "negate a = \<lparr>vx = - vx a, vy = - vy a, vz = - vz a\<rparr>"

definition transpose3 :: "Matrix3x3 \<Rightarrow> Matrix3x3" where
  "transpose3 m =
     \<lparr>row0 = \<lparr>vx = vx (row0 m), vy = vx (row1 m), vz = vx (row2 m)\<rparr>,
      row1 = \<lparr>vx = vy (row0 m), vy = vy (row1 m), vz = vy (row2 m)\<rparr>,
      row2 = \<lparr>vx = vz (row0 m), vy = vz (row1 m), vz = vz (row2 m)\<rparr>\<rparr>"

definition mat_vec :: "Matrix3x3 \<Rightarrow> Vector3 \<Rightarrow> Vector3" where
  "mat_vec m v = \<lparr>vx = dot (row0 m) v, vy = dot (row1 m) v, vz = dot (row2 m) v\<rparr>"

definition mat_mul :: "Matrix3x3 \<Rightarrow> Matrix3x3 \<Rightarrow> Matrix3x3" where
  "mat_mul a b =
     (let t = transpose3 b in
      \<lparr>row0 = \<lparr>vx = dot (row0 t) (row0 a), vy = dot (row1 t) (row0 a), vz = dot (row2 t) (row0 a)\<rparr>,
       row1 = \<lparr>vx = dot (row0 t) (row1 a), vy = dot (row1 t) (row1 a), vz = dot (row2 t) (row1 a)\<rparr>,
       row2 = \<lparr>vx = dot (row0 t) (row2 a), vy = dot (row1 t) (row2 a), vz = dot (row2 t) (row2 a)\<rparr>\<rparr>)"

definition identity_matrix :: Matrix3x3 where
  "identity_matrix =
     \<lparr>row0 = \<lparr>vx = 1, vy = 0, vz = 0\<rparr>,
      row1 = \<lparr>vx = 0, vy = 1, vz = 0\<rparr>,
      row2 = \<lparr>vx = 0, vy = 0, vz = 1\<rparr>\<rparr>"

definition setRotation :: "Quaternion \<Rightarrow> Matrix3x3" where
  "setRotation q =
     (let d = qx q * qx q + qy q * qy q + qz q * qz q + qw q * qw q;
          s = 2 / d;
          xs = qx q * s; ys = qy q * s; zs = qz q * s;
          wx = qw q * xs; wy = qw q * ys; wz = qw q * zs;
          xx = qx q * xs; xy = qx q * ys; xz = qx q * zs;
          yy = qy q * ys; yz = qy q * zs; zz = qz q * zs
      in \<lparr>row0 = \<lparr>vx = 1 - (yy + zz), vy = xy - wz, vz = xz + wy\<rparr>,
          row1 = \<lparr>vx = xy + wz, vy = 1 - (xx + zz), vz = yz - wx\<rparr>,
          row2 = \<lparr>vx = xz - wy, vy = yz + wx, vz = 1 - (xx + yy)\<rparr>\<rparr>)"

definition transform_of :: "Quaternion \<Rightarrow> Vector3 \<Rightarrow> Transform" where
  "transform_of q c = \<lparr>basis = setRotation q, origin = c\<rparr>"

definition identity_transform :: Transform where
  "identity_transform = \<lparr>basis = identity_matrix, origin = zero_vector\<rparr>"

definition apply_transform :: "Transform \<Rightarrow> Vector3 \<Rightarrow> Vector3" where
  "apply_transform t v =
     \<lparr>vx = dot (row0 (basis t)) v + vx (origin t),
      vy = dot (row1 (basis t)) v + vy (origin t),
      vz = dot (row2 (basis t)) v + vz (origin t)\<rparr>"

definition transform_mul :: "Transform \<Rightarrow> Transform \<Rightarrow> Transform" where
  "transform_mul a b =
     \<lparr>basis = mat_mul (basis a) (basis b), origin = apply_transform a (origin b)\<rparr>"

definition inverse_transform :: "Transform \<Rightarrow> Transform" where
  "inverse_transform t =
     (let inv = transpose3 (basis t) in
      \<lparr>basis = inv, origin = mat_vec inv (negate (origin t))\<rparr>)"

subsection \<open>Messages, engine results and the node's state\<close>

record Header =
  stamp :: time
  frame_id :: string

record Pose =
  position :: Vector3
  orientation :: Quaternion

record Odometry =
  header :: Header
  child_frame_id :: string
  pose :: Pose
  pose_covariance :: "real list"
  twist_linear :: Vector3
  twist_angular :: Vector3
  twist_covariance :: "real list"

record PoseStamped =
  ps_header :: Header
  ps_pose :: Pose

record StampedTransform =
  st_transform :: Transform
  st_stamp :: time
  st_frame_id :: string
  st_child_frame_id :: string

text \<open>
  A message made by its default constructor: every number is zero and every string is
  empty (the constructors that roscpp generates for message types).
\<close>

definition new_Odometry :: Odometry where
  "new_Odometry =
     \<lparr>header = \<lparr>stamp = 0, frame_id = []\<rparr>,
      child_frame_id = [],
      pose = \<lparr>position = zero_vector, orientation = \<lparr>qx = 0, qy = 0, qz = 0, qw = 0\<rparr>\<rparr>,
      pose_covariance = replicate 36 0,
      twist_linear = zero_vector,
      twist_angular = zero_vector,
      twist_covariance = replicate 36 0\<rparr>"

text \<open>
  \<^verbatim>\<open>fovis::MotionEstimateStatusCode\<close>; the node names \<^verbatim>\<open>SUCCESS\<close> only.
\<close>

datatype MotionEstimateStatusCode =
  NO_DATA | SUCCESS | INSUFFICIENT_INLIERS | OPTIMIZATION_FAILURE | REPROJECTION_ERROR

text \<open>
  What the node reads from an \<^verbatim>\<open>Eigen::Isometry3d\<close>: its translation, and its rotation
  as Eigen converts it, to a quaternion for the absolute pose (line 112) and to an axis
  and an angle for the incremental motion (line 134).
\<close>

record EnginePose =
  pose_translation :: Vector3
  pose_rotation :: Quaternion

record MotionEstimate =
  motion_translation :: Vector3
  aa_axis :: Vector3
  aa_angle :: real

text \<open>The parameters read by the constructor (lines 51 to 54).\<close>

record Config =
  odom_frame_id :: string
  base_link_frame_id :: string
  sensor_frame_id :: string
  publish_tf :: bool

definition default_config :: Config where
  "default_config =
     \<lparr>odom_frame_id = ''/odom'', base_link_frame_id = ''/base_link'',
      sensor_frame_id = ''/camera'', publish_tf = True\<rparr>"

text \<open>
  The members that change: the two engine handles (null until \<^verbatim>\<open>initOdometer\<close>; the
  model keeps the parameters each was constructed from), \<^verbatim>\<open>last_time_\<close>, and the
  static \<^verbatim>\<open>last_hit\<close> of the throttled warning.
\<close>

record State =
  visual_odometer :: "CameraIntrinsicsParameters option"
  stereo_depth :: "StereoCalibrationParameters option"
  last_time :: time
  last_hit :: real

definition initial_state :: State where
  "initial_state =
     \<lparr>visual_odometer = None, stereo_depth = None, last_time = 0, last_hit = 0\<rparr>"

text \<open>
  One image-pair event: the stamp of the left image, the two camera info messages and the
  camera model made from them, the row steps and sizes of the two images, what the engine
  reports after \<^verbatim>\<open>processFrame\<close>, what the transform listener answers, and the clock
  read by the throttled warning.
\<close>

record Frame =
  l_stamp :: time
  l_info :: CameraInfo
  r_info :: CameraInfo
  camera_model :: StereoCameraModel
  l_step :: int
  r_step :: int
  l_width :: "32 word"
  r_width :: "32 word"
  l_height :: "32 word"
  r_height :: "32 word"
  status :: MotionEstimateStatusCode
  engine_pose :: EnginePose
  motion_estimate :: MotionEstimate
  motion_cov :: "nat \<Rightarrow> nat \<Rightarrow> real"
  can_transform :: bool
  lookup_transform :: Transform
  now :: real

text \<open>
  What the node does to the outside: the two engine constructions, the three kinds of
  outward message, and the log lines. A warning carries the clock value at which it was
  printed.
\<close>

datatype event =
    NewStereoDepth StereoCalibrationParameters
  | NewVisualOdometry CameraIntrinsicsParameters
  | LogInfo
  | LogWarn real
  | LogDebug
  | LogError MotionEstimateStatusCode
  | PublishOdom Odometry
  | PublishPose PoseStamped
  | SendTransform StampedTransform

datatype error = AssertionFailed

subsection \<open>initOdometer, with the handles\<close>

text \<open>
  Lines 99 to 104: both handles are reset to newly constructed objects and one info line
  is logged.
\<close>

definition initOdometer :: "State \<Rightarrow> Frame \<Rightarrow> event list \<times> State" where
  "initOdometer st f =
     (let sp = stereo_parameters (camera_model f) (l_info f) (r_info f);
          lp = left_intrinsics (camera_model f) (l_info f)
      in ([NewStereoDepth sp, NewVisualOdometry lp, LogInfo],
          st\<lparr>stereo_depth := Some sp, visual_odometer := Some lp\<rparr>))"

subsection \<open>mountAndPublish\<close>

text \<open>Lines 114 to 124: stamp, frame names and pose of the odometry message.\<close>

definition mount_pose :: "Config \<Rightarrow> EnginePose \<Rightarrow> time \<Rightarrow> Odometry" where
  "mount_pose cfg p timestamp =
     (let translation = pose_translation p; rotation = pose_rotation p in
      new_Odometry
        \<lparr>header := \<lparr>stamp = timestamp, frame_id = odom_frame_id cfg\<rparr>,
         child_frame_id := base_link_frame_id cfg,
         pose := \<lparr>position = \<lparr>vx = vx translation, vy = vy translation, vz = vz translation\<rparr>,
                  orientation = \<lparr>qx = qx rotation, qy = qy rotation,
                                 qz = qz rotation, qw = qw rotation\<rparr>\<rparr>\<rparr>)"

text \<open>
  Lines 126 to 142: the twist is written only when \<^verbatim>\<open>last_time_\<close> is not zero and
  \<^verbatim>\<open>dt\<close>, the elapsed time stored in a \<^verbatim>\<open>float\<close>, is positive. The six divisions are by
  that \<^verbatim>\<open>float\<close>. As in C++, \<open>a * b / dt\<close> is \<open>(a * b) / dt\<close>.
\<close>

definition mount_twist :: "State \<Rightarrow> MotionEstimate \<Rightarrow> time \<Rightarrow> Odometry \<Rightarrow> Odometry" where
  "mount_twist st last_motion timestamp odom_msg =
     (if \<not> isZero (last_time st) then
        (let dt = to_float (toSec_diff timestamp (last_time st)) in
         if dt > 0 then
           (let last_translation = motion_translation last_motion;
                axis = aa_axis last_motion; angle = aa_angle last_motion in
            odom_msg
              \<lparr>twist_linear := \<lparr>vx = vx last_translation / dt,
                                 vy = vy last_translation / dt,
                                 vz = vz last_translation / dt\<rparr>,
               twist_angular := \<lparr>vx = vx axis * angle / dt,
                                  vy = vy axis * angle / dt,
                                  vz = vz axis * angle / dt\<rparr>\<rparr>)
         else odom_msg)
      else odom_msg)"

text \<open>Lines 150 to 153: the pose-only message made from the odometry message.\<close>

definition pose_of_odom :: "Odometry \<Rightarrow> PoseStamped" where
  "pose_of_odom odom_msg =
     \<lparr>ps_header = (header odom_msg)\<lparr>frame_id := child_frame_id odom_msg\<rparr>,
      ps_pose = pose odom_msg\<rparr>"

text \<open>
  Modelled from the spec: the macro \<^verbatim>\<open>ROS_WARN_THROTTLE\<close> is not in the repository. The
  spec's gate keeps the time of the last warning and lets the next one through once the
  period has passed since then. The result says whether the line is printed, and gives
  the new time of the last warning.
\<close>

definition warn_throttle :: "real \<Rightarrow> real \<Rightarrow> real \<Rightarrow> bool \<times> real" where
  "warn_throttle period hit t = (if hit + period \<le> t then (True, t) else (False, hit))"

text \<open>
  Lines 160 to 177: the offset between base and sensor, or the identity with a throttled
  warning and a debug line when the listener cannot give it.
\<close>

definition resolve_base_to_sensor :: "Frame \<Rightarrow> State \<Rightarrow> event list \<times> Transform \<times> real" where
  "resolve_base_to_sensor env st =
     (if can_transform env then ([], lookup_transform env, last_hit st)
      else
        (let (printed, hit) = warn_throttle 10 (last_hit st) (now env) in
         ((if printed then [LogWarn (now env)] else []) @ [LogDebug],
          identity_transform, hit)))"

text \<open>Line 185.\<close>

definition compose_base :: "Transform \<Rightarrow> Transform \<Rightarrow> Transform" where
  "compose_base base_to_sensor pose_transform =
     transform_mul (transform_mul base_to_sensor pose_transform)
       (inverse_transform base_to_sensor)"

text \<open>Lines 157 to 191: the transform broadcast, when the user wants it.\<close>

definition publish_transform ::
  "Config \<Rightarrow> Frame \<Rightarrow> State \<Rightarrow> EnginePose \<Rightarrow> time \<Rightarrow> event list \<times> real" where
  "publish_transform cfg env st p timestamp =
     (if publish_tf cfg then
        (let (logs, base_to_sensor, hit) = resolve_base_to_sensor env st;
             translation = pose_translation p; rotation = pose_rotation p;
             pose_quaternion = \<lparr>qx = qx rotation, qy = qy rotation,
                                qz = qz rotation, qw = qw rotation\<rparr>;
             pose_origin = \<lparr>vx = vx translation, vy = vy translation, vz = vz translation\<rparr>;
             pose_transform = transform_of pose_quaternion pose_origin;
             base_transform = compose_base base_to_sensor pose_transform
         in (logs @ [LogInfo,
                     SendTransform \<lparr>st_transform = base_transform, st_stamp = timestamp,
                                    st_frame_id = odom_frame_id cfg,
                                    st_child_frame_id = base_link_frame_id cfg\<rparr>],
             hit))
      else ([], last_hit st))"

text \<open>
  The whole function. Its arguments are the pose, the covariance and the stamp; the
  incremental motion, the listener's answer and the clock come from the environment.
\<close>

definition mountAndPublish ::
  "Config \<Rightarrow> Frame \<Rightarrow> State \<Rightarrow> EnginePose \<Rightarrow> (nat \<Rightarrow> nat \<Rightarrow> real) \<Rightarrow> time
     \<Rightarrow> event list \<times> State" where
  "mountAndPublish cfg env st p cov timestamp =
     (let odom0 = mount_pose cfg p timestamp;
          odom1 = mount_twist st (motion_estimate env) timestamp odom0;
          odom_msg = odom1\<lparr>twist_covariance := fill_twist_covariance cov (twist_covariance odom1)\<rparr>;
          pose_msg = pose_of_odom odom_msg;
          (tf_events, hit) = publish_transform cfg env st p timestamp
      in ([PublishOdom odom_msg, PublishPose pose_msg] @ tf_events,
          st\<lparr>last_time := timestamp, last_hit := hit\<rparr>))"

subsection \<open>imageCallback\<close>

text \<open>The four assertions of lines 221 to 224.\<close>

definition images_ok :: "Frame \<Rightarrow> bool" where
  "images_ok f =
     (l_step f = r_step f \<and> l_step f = sint (l_width f)
      \<and> l_width f = r_width f \<and> l_height f = r_height f)"

text \<open>
  One image-pair event: the odometer is created if it does not exist (lines 204 to 208),
  the images are checked, and the engine's answer is published or its failure logged.
  A failed assertion ends the process: the events so far stay, the state is gone.
\<close>

definition ensure_odometer :: "State \<Rightarrow> Frame \<Rightarrow> event list \<times> State" where
  "ensure_odometer st f = (if visual_odometer st = None then initOdometer st f else ([], st))"

definition imageCallback :: "Config \<Rightarrow> State \<Rightarrow> Frame \<Rightarrow> event list \<times> (error + State)" where
  "imageCallback cfg st f =
     (let (ev0, st1) = ensure_odometer st f in
      if \<not> images_ok f then (ev0, Inl AssertionFailed)
      else if status f = SUCCESS then
        (let (ev1, st2) = mountAndPublish cfg f st1 (engine_pose f) (motion_cov f) (l_stamp f)
         in (ev0 @ ev1, Inr st2))
      else (ev0 @ [LogError (status f)], Inr st1))"

text \<open>A sequence of events, one after the other, until the process ends.\<close>

fun run :: "Config \<Rightarrow> State \<Rightarrow> Frame list \<Rightarrow> event list \<times> (error + State)" where
  "run cfg st [] = ([], Inr st)"
| "run cfg st (f # fs) =
     (case imageCallback cfg st f of
        (ev, Inl e) \<Rightarrow> (ev, Inl e)
      | (ev, Inr st') \<Rightarrow> (let (evs, r) = run cfg st' fs in (ev @ evs, r)))"

subsection \<open>Reading a trace\<close>

fun is_construction :: "event \<Rightarrow> bool" where
  "is_construction (NewStereoDepth _) = True"
| "is_construction (NewVisualOdometry _) = True"
| "is_construction _ = False"

definition constructions :: "event list \<Rightarrow> event list" where
  "constructions evs = filter is_construction evs"

fun odom_messages :: "event list \<Rightarrow> Odometry list" where
  "odom_messages [] = []"
| "odom_messages (PublishOdom m # es) = m # odom_messages es"
| "odom_messages (_ # es) = odom_messages es"

fun pose_messages :: "event list \<Rightarrow> PoseStamped list" where
  "pose_messages [] = []"
| "pose_messages (PublishPose m # es) = m # pose_messages es"
| "pose_messages (_ # es) = pose_messages es"

fun transforms :: "event list \<Rightarrow> StampedTransform list" where
  "transforms [] = []"
| "transforms (SendTransform m # es) = m # transforms es"
| "transforms (_ # es) = transforms es"

fun warn_times :: "event list \<Rightarrow> real list" where
  "warn_times [] = []"
| "warn_times (LogWarn t # es) = t # warn_times es"
| "warn_times (_ # es) = warn_times es"

text \<open>Each time of the list is at least \<open>period\<close> after the one before it.\<close>

fun spaced :: "real \<Rightarrow> real list \<Rightarrow> bool" where
  "spaced period [] = True"
| "spaced period [t] = True"
| "spaced period (t # u # ts) = (t + period \<le> u \<and> spaced period (u # ts))"

subsection \<open>The scenarios of the spec\<close>

text \<open>
  The calibration of the spec's scenario (focal lengths 500, principal point (320, 240),
  images of 640 by 480, baseline 0.12) and a frame of it with a given stamp, incremental
  motion, status and answer of the transform listener. The motion \<open>moving v\<close> translates
  by \<open>v\<close> and turns by 0.2 about the third axis; \<open>still\<close> is no motion at all.
\<close>

definition scenario_pinhole :: PinholeCameraModel where
  "scenario_pinhole = \<lparr>pin_cx = 320, pin_cy = 240, pin_fx = 500, pin_fy = 500\<rparr>"

definition scenario_model :: StereoCameraModel where
  "scenario_model = \<lparr>left = scenario_pinhole, right = scenario_pinhole, baseline = 12 / 100\<rparr>"

definition moving :: "Vector3 \<Rightarrow> MotionEstimate" where
  "moving v = \<lparr>motion_translation = v, aa_axis = \<lparr>vx = 0, vy = 0, vz = 1\<rparr>, aa_angle = 1 / 5\<rparr>"

definition still :: MotionEstimate where
  "still = \<lparr>motion_translation = zero_vector, aa_axis = \<lparr>vx = 1, vy = 0, vz = 0\<rparr>, aa_angle = 0\<rparr>"

definition scenario_frame ::
  "time \<Rightarrow> MotionEstimate \<Rightarrow> MotionEstimateStatusCode \<Rightarrow> bool \<Rightarrow> Frame" where
  "scenario_frame t mo s c =
     \<lparr>l_stamp = t,
      l_info = \<lparr>info_height = 480, info_width = 640\<rparr>,
      r_info = \<lparr>info_height = 480, info_width = 640\<rparr>,
      camera_model = scenario_model,
      l_step = 640, r_step = 640,
      l_width = 640, r_width = 640, l_height = 480, r_height = 480,
      status = s,
      engine_pose = \<lparr>pose_translation = \<lparr>vx = 1, vy = 2, vz = 3\<rparr>,
                     pose_rotation = \<lparr>qx = 0, qy = 0, qz = 1, qw = 0\<rparr>\<rparr>,
      motion_estimate = mo,
      motion_cov = (\<lambda>i j. real (10 * i + j)),
      can_transform = c,
      lookup_transform = \<lparr>basis = identity_matrix, origin = \<lparr>vx = 1 / 2, vy = 0, vz = 0\<rparr>\<rparr>,
      now = real t / 1000000000\<rparr>"

text \<open>
  The state of the node once the scenario's odometer exists, with a given last stamp and
  a given time of the last warning.
\<close>

definition scenario_state :: "time \<Rightarrow> real \<Rightarrow> State" where
  "scenario_state t h =
     \<lparr>visual_odometer =
        Some (left_intrinsics scenario_model \<lparr>info_height = 480, info_width = 640\<rparr>),
      stereo_depth =
        Some (stereo_parameters scenario_model \<lparr>info_height = 480, info_width = 640\<rparr>
                \<lparr>info_height = 480, info_width = 640\<rparr>),
      last_time = t, last_hit = h\<rparr>"

section \<open>Properties\<close>


subsection \<open>Auxiliary facts\<close>

declare exponent_above.simps [simp del] exponent_below.simps [simp del]

lemma exponent_above_bounds:
  "1 \<le> x \<Longrightarrow> 2 powi (exponent_above x) \<le> x \<and> x < 2 powi (exponent_above x + 1)"
proof (induction x rule: exponent_above.induct)
  case (1 x)
  show ?case
  proof (cases "x < 2")
    case True
    then show ?thesis using "1.prems" by (simp add: exponent_above.simps[of x])
  next
    case False
    then have "1 \<le> x / 2" by simp
    from "1.IH"[OF False this]
    have "2 powi (exponent_above (x / 2)) \<le> x / 2"
      and "x / 2 < 2 powi (exponent_above (x / 2) + 1)" by simp_all
    then show ?thesis
      using False by (simp add: exponent_above.simps[of x] power_int_add)
  qed
qed

lemma exponent_below_bounds:
  "0 < x \<Longrightarrow> x < 1 \<Longrightarrow>
     2 powi (exponent_below x) \<le> x \<and> x < 2 powi (exponent_below x + 1)"
proof (induction x rule: exponent_below.induct)
  case (1 x)
  have inside: "\<not> (x \<le> 0 \<or> 1 \<le> x)" using "1.prems" by simp
  show ?case
  proof (cases "2 * x < 1")
    case True
    have "0 < 2 * x" using "1.prems" by simp
    from "1.IH"[OF inside this True]
    have "2 powi (exponent_below (2 * x)) \<le> 2 * x"
      and "2 * x < 2 powi (exponent_below (2 * x) + 1)" by simp_all
    then show ?thesis
      using inside by (simp add: exponent_below.simps[of x] power_int_add power_int_diff)
  next
    case False
    then have "exponent_below (2 * x) = 0"
      by (simp add: exponent_below.simps[of "2 * x"])
    then have "exponent_below x = - 1"
      using inside by (simp add: exponent_below.simps[of x])
    then show ?thesis using False "1.prems" by (simp add: power_int_minus)
  qed
qed

lemma float_exponent_bounds:
  assumes "0 < x"
  shows "2 powi (float_exponent x) \<le> x" and "x < 2 powi (float_exponent x + 1)"
  using assms exponent_above_bounds[of x] exponent_below_bounds[of x]
  by (auto simp: float_exponent_def)

lemma float_quantum_pos: "0 < float_quantum a"
  by (simp add: float_quantum_def)

lemma float_quantum_le:
  assumes "0 < a"
  shows "float_quantum a * 2 ^ 23 \<le> a"
proof -
  have "float_quantum a * 2 ^ 23 = 2 powi (float_exponent a)"
    by (simp add: float_quantum_def power_int_diff)
  then show ?thesis using float_exponent_bounds(1)[OF assms] by simp
qed

lemma round_half_even_close: "\<bar>of_int (round_half_even y) - y\<bar> \<le> 1 / 2"
  by (simp add: round_half_even_def Let_def)

lemma round_half_even_pos:
  assumes "1 \<le> y"
  shows "1 \<le> round_half_even y"
proof -
  have "1 \<le> \<lfloor>y\<rfloor>" using assms by simp
  then show ?thesis by (simp add: round_half_even_def Let_def)
qed

lemma to_float_pos:
  assumes "0 < x"
  shows "0 < to_float x"
proof -
  let ?q = "float_quantum x"
  have q: "0 < ?q" by (rule float_quantum_pos)
  have "?q * 1 \<le> ?q * 2 ^ 23" using q by (intro mult_left_mono) simp_all
  then have "?q \<le> x" using float_quantum_le[OF assms] by simp
  then have "1 \<le> x / ?q" using q by (simp add: field_simps)
  then have "1 \<le> round_half_even (x / ?q)" by (rule round_half_even_pos)
  then have "0 < real_of_int (round_half_even (x / ?q)) * ?q"
    using q by (intro mult_pos_pos) simp_all
  then show ?thesis using assms by (simp add: to_float_def)
qed

lemma to_float_neg:
  assumes "x < 0"
  shows "to_float x = - to_float (- x)"
  using assms by (simp add: to_float_def)

lemma to_float_pos_iff: "(0 < to_float x) = (0 < x)"
proof (cases "0 < x")
  case True
  then show ?thesis using to_float_pos by simp
next
  case False
  show ?thesis
  proof (cases "x = 0")
    case True
    then show ?thesis by (simp add: to_float_def)
  next
    case False
    then have "x < 0" using \<open>\<not> 0 < x\<close> by simp
    then have "0 < to_float (- x)" by (intro to_float_pos) simp
    then show ?thesis using to_float_neg[OF \<open>x < 0\<close>] \<open>\<not> 0 < x\<close> by simp
  qed
qed

lemma to_float_error:
  assumes "0 < x"
  shows "\<bar>to_float x - x\<bar> \<le> x / 2 ^ 24"
proof -
  let ?q = "float_quantum x"
  let ?n = "real_of_int (round_half_even (x / ?q))"
  have q: "0 < ?q" by (rule float_quantum_pos)
  have "to_float x - x = (?n - x / ?q) * ?q"
    using assms q by (simp add: to_float_def field_simps)
  then have "\<bar>to_float x - x\<bar> = \<bar>?n - x / ?q\<bar> * ?q"
    using q by (simp add: abs_mult)
  also have "\<dots> \<le> (1 / 2) * ?q"
    using round_half_even_close[of "x / ?q"] q by (intro mult_right_mono) simp_all
  also have "\<dots> = (?q * 2 ^ 23) / 2 ^ 24" by simp
  also have "\<dots> \<le> x / 2 ^ 24"
    using float_quantum_le[OF assms] by (intro divide_right_mono) simp_all
  finally show ?thesis .
qed

lemma to_float_eval:
  assumes "0 < x" and "float_exponent x = e"
    and "round_half_even (x / 2 powi (e - 23)) = n"
  shows "to_float x = of_int n * 2 powi (e - 23)"
  using assms by (simp add: to_float_def float_quantum_def)

lemma to_float_tenth: "to_float (1 / 10) = 13421773 / 134217728"
proof -
  have "float_exponent (1 / 10) = - 4"
    by (simp add: float_exponent_def exponent_below.simps)
  moreover have "round_half_even ((1 / 10) / 2 powi (- 4 - 23)) = 13421773"
    by (simp add: round_half_even_def Let_def power_int_minus)
  ultimately show ?thesis
    using to_float_eval[of "1 / 10" "- 4" 13421773] by (simp add: power_int_minus)
qed

lemma index_split:
  "i < 6 \<Longrightarrow> (n * 6 + i = k) = (k mod 6 = i \<and> k div 6 = (n::nat))"
  by auto

lemma inner_loop_length:
  "length (fold (\<lambda>j c. c[j * 6 + i := h j]) [0..<n] c) = length c"
  by (induction n) simp_all

lemma inner_loop_nth:
  assumes "i < 6" "k < length c"
  shows "fold (\<lambda>j c. c[j * 6 + i := h j]) [0..<n] c ! k =
           (if k mod 6 = i \<and> k div 6 < n then h (k div 6) else c ! k)"
proof (induction n)
  case 0
  show ?case by simp
next
  case (Suc n)
  show ?case
    using Suc.IH assms
    by (auto simp: nth_list_update inner_loop_length index_split less_Suc_eq)
qed

lemma outer_loop_length:
  "length (fold (\<lambda>i cov. fold (\<lambda>j c. c[j * 6 + i := m i j]) [0..<6] cov) [0..<n] c) = length c"
  by (induction n) (simp_all add: inner_loop_length)

lemma outer_loop_nth:
  assumes "n \<le> 6" "k < length c"
  shows "fold (\<lambda>i cov. fold (\<lambda>j c. c[j * 6 + i := m i j]) [0..<6] cov) [0..<n] c ! k =
           (if k mod 6 < n \<and> k div 6 < 6 then m (k mod 6) (k div 6) else c ! k)"
  using assms
proof (induction n)
  case 0
  show ?case by simp
next
  case (Suc n)
  then have n: "n < 6" and IH: "fold (\<lambda>i cov. fold (\<lambda>j c. c[j * 6 + i := m i j]) [0..<6] cov) [0..<n] c ! k =
           (if k mod 6 < n \<and> k div 6 < 6 then m (k mod 6) (k div 6) else c ! k)"
    by simp_all
  show ?case
    using IH n assms(2)
    by (auto simp: inner_loop_nth outer_loop_length less_Suc_eq)
qed

lemma fill_twist_covariance_length:
  "length (fill_twist_covariance m c) = length c"
  unfolding fill_twist_covariance_def by (rule outer_loop_length)

lemma fill_twist_covariance_nth:
  "length c = 36 \<Longrightarrow> k < 36 \<Longrightarrow> fill_twist_covariance m c ! k = m (k mod 6) (k div 6)"
  unfolding fill_twist_covariance_def
  by (simp add: outer_loop_nth less_mult_imp_div_less)

lemma fill_twist_covariance_eq:
  "length c = 36 \<Longrightarrow> fill_twist_covariance m c = map (\<lambda>k. m (k mod 6) (k div 6)) [0..<36]"
  by (rule nth_equalityI) (simp_all add: fill_twist_covariance_length fill_twist_covariance_nth)

lemma odom_messages_append: "odom_messages (a @ b) = odom_messages a @ odom_messages b"
  by (induction a rule: odom_messages.induct) simp_all

lemma pose_messages_append: "pose_messages (a @ b) = pose_messages a @ pose_messages b"
  by (induction a rule: pose_messages.induct) simp_all

lemma transforms_append: "transforms (a @ b) = transforms a @ transforms b"
  by (induction a rule: transforms.induct) simp_all

lemma warn_times_append: "warn_times (a @ b) = warn_times a @ warn_times b"
  by (induction a rule: warn_times.induct) simp_all

lemma constructions_append: "constructions (a @ b) = constructions a @ constructions b"
  by (simp add: constructions_def)

lemmas trace_append =
  odom_messages_append pose_messages_append transforms_append warn_times_append
  constructions_append

lemma ensure_odometer_fst:
  "fst (ensure_odometer st f) =
     (if visual_odometer st = None
      then [NewStereoDepth (stereo_parameters (camera_model f) (l_info f) (r_info f)),
            NewVisualOdometry (left_intrinsics (camera_model f) (l_info f)), LogInfo]
      else [])"
  by (simp add: ensure_odometer_def initOdometer_def Let_def)

lemma ensure_odometer_snd:
  "snd (ensure_odometer st f) =
     (if visual_odometer st = None
      then st\<lparr>stereo_depth := Some (stereo_parameters (camera_model f) (l_info f) (r_info f)),
              visual_odometer := Some (left_intrinsics (camera_model f) (l_info f))\<rparr>
      else st)"
  by (simp add: ensure_odometer_def initOdometer_def Let_def)

lemma ensure_odometer_silent:
  "odom_messages (fst (ensure_odometer st f)) = []"
  "pose_messages (fst (ensure_odometer st f)) = []"
  "transforms (fst (ensure_odometer st f)) = []"
  "warn_times (fst (ensure_odometer st f)) = []"
  by (simp_all add: ensure_odometer_fst)

lemma ensure_odometer_keeps:
  "last_time (snd (ensure_odometer st f)) = last_time st"
  "last_hit (snd (ensure_odometer st f)) = last_hit st"
  by (simp_all add: ensure_odometer_snd)

lemma resolve_logs_silent:
  "odom_messages (fst (resolve_base_to_sensor env st)) = []"
  "pose_messages (fst (resolve_base_to_sensor env st)) = []"
  "transforms (fst (resolve_base_to_sensor env st)) = []"
  by (simp_all add: resolve_base_to_sensor_def warn_throttle_def trace_append)

lemma resolve_transform:
  "fst (snd (resolve_base_to_sensor env st)) =
     (if can_transform env then lookup_transform env else identity_transform)"
  by (simp add: resolve_base_to_sensor_def warn_throttle_def)

lemma Vector3_copy: "\<lparr>vx = vx v, vy = vy v, vz = vz v\<rparr> = v"
  by (cases v) simp

lemma Quaternion_copy: "\<lparr>qx = qx q, qy = qy q, qz = qz q, qw = qw q\<rparr> = q"
  by (cases q) simp

lemma publish_transform_fst:
  "fst (publish_transform cfg env st p t) =
     (if publish_tf cfg then
        fst (resolve_base_to_sensor env st) @
        [LogInfo,
         SendTransform
           \<lparr>st_transform =
              compose_base (if can_transform env then lookup_transform env else identity_transform)
                (transform_of (pose_rotation p) (pose_translation p)),
            st_stamp = t, st_frame_id = odom_frame_id cfg,
            st_child_frame_id = base_link_frame_id cfg\<rparr>]
      else [])"
  by (simp add: publish_transform_def Let_def case_prod_beta resolve_transform
      Vector3_copy Quaternion_copy)

lemma publish_transform_snd:
  "snd (publish_transform cfg env st p t) =
     (if publish_tf cfg then snd (snd (resolve_base_to_sensor env st)) else last_hit st)"
  by (simp add: publish_transform_def Let_def case_prod_beta)

lemma publish_transform_silent:
  "odom_messages (fst (publish_transform cfg env st p t)) = []"
  "pose_messages (fst (publish_transform cfg env st p t)) = []"
  by (simp_all add: publish_transform_fst trace_append resolve_logs_silent)

lemma publish_transform_transforms:
  "transforms (fst (publish_transform cfg env st p t)) =
     (if publish_tf cfg then
        [\<lparr>st_transform =
             compose_base (if can_transform env then lookup_transform env else identity_transform)
               (transform_of (pose_rotation p) (pose_translation p)),
           st_stamp = t, st_frame_id = odom_frame_id cfg,
           st_child_frame_id = base_link_frame_id cfg\<rparr>]
      else [])"
  by (simp add: publish_transform_fst trace_append resolve_logs_silent)

lemma mount_twist_covariance:
  "twist_covariance (mount_twist st mo t (mount_pose cfg p t)) = replicate 36 0"
  by (simp add: mount_twist_def mount_pose_def new_Odometry_def Let_def)

lemma mountAndPublish_fst:
  "fst (mountAndPublish cfg env st p cov t) =
     [PublishOdom ((mount_twist st (motion_estimate env) t (mount_pose cfg p t))
        \<lparr>twist_covariance := fill_twist_covariance cov (replicate 36 0)\<rparr>),
      PublishPose (pose_of_odom ((mount_twist st (motion_estimate env) t (mount_pose cfg p t))
        \<lparr>twist_covariance := fill_twist_covariance cov (replicate 36 0)\<rparr>))]
     @ fst (publish_transform cfg env st p t)"
  by (simp add: mountAndPublish_def Let_def case_prod_beta mount_twist_covariance)

lemma mountAndPublish_snd:
  "snd (mountAndPublish cfg env st p cov t) =
     st\<lparr>last_time := t, last_hit := snd (publish_transform cfg env st p t)\<rparr>"
  by (simp add: mountAndPublish_def Let_def case_prod_beta)

lemma mountAndPublish_odom:
  "odom_messages (fst (mountAndPublish cfg env st p cov t)) =
     [(mount_twist st (motion_estimate env) t (mount_pose cfg p t))
        \<lparr>twist_covariance := fill_twist_covariance cov (replicate 36 0)\<rparr>]"
  by (simp add: mountAndPublish_fst trace_append publish_transform_silent)

lemma mountAndPublish_pose:
  "pose_messages (fst (mountAndPublish cfg env st p cov t)) =
     [pose_of_odom ((mount_twist st (motion_estimate env) t (mount_pose cfg p t))
        \<lparr>twist_covariance := fill_twist_covariance cov (replicate 36 0)\<rparr>)]"
  by (simp add: mountAndPublish_fst trace_append publish_transform_silent)

lemma mountAndPublish_transforms:
  "transforms (fst (mountAndPublish cfg env st p cov t)) =
     transforms (fst (publish_transform cfg env st p t))"
  by (simp add: mountAndPublish_fst trace_append)

lemma imageCallback_fst:
  "fst (imageCallback cfg st f) =
     fst (ensure_odometer st f) @
     (if \<not> images_ok f then []
      else if status f = SUCCESS
      then fst (mountAndPublish cfg f (snd (ensure_odometer st f)) (engine_pose f)
                  (motion_cov f) (l_stamp f))
      else [LogError (status f)])"
  by (simp add: imageCallback_def Let_def case_prod_beta)

lemma imageCallback_snd:
  "snd (imageCallback cfg st f) =
     (if \<not> images_ok f then Inl AssertionFailed
      else if status f = SUCCESS
      then Inr (snd (mountAndPublish cfg f (snd (ensure_odometer st f)) (engine_pose f)
                  (motion_cov f) (l_stamp f)))
      else Inr (snd (ensure_odometer st f)))"
  by (simp add: imageCallback_def Let_def case_prod_beta)

lemma mount_twist_cong:
  "last_time st = last_time st' \<Longrightarrow> mount_twist st mo t m = mount_twist st' mo t m"
  by (simp add: mount_twist_def)

lemma imageCallback_odom:
  "odom_messages (fst (imageCallback cfg st f)) =
     (if images_ok f \<and> status f = SUCCESS
      then [(mount_twist st (motion_estimate f) (l_stamp f)
               (mount_pose cfg (engine_pose f) (l_stamp f)))
              \<lparr>twist_covariance := fill_twist_covariance (motion_cov f) (replicate 36 0)\<rparr>]
      else [])"
  using mount_twist_cong[OF ensure_odometer_keeps(1), of st f]
  by (simp add: imageCallback_fst trace_append ensure_odometer_silent mountAndPublish_odom)

lemma imageCallback_pose:
  "pose_messages (fst (imageCallback cfg st f)) =
     (if images_ok f \<and> status f = SUCCESS
      then [pose_of_odom ((mount_twist st (motion_estimate f) (l_stamp f)
               (mount_pose cfg (engine_pose f) (l_stamp f)))
              \<lparr>twist_covariance := fill_twist_covariance (motion_cov f) (replicate 36 0)\<rparr>)]
      else [])"
  using mount_twist_cong[OF ensure_odometer_keeps(1), of st f]
  by (simp add: imageCallback_fst trace_append ensure_odometer_silent mountAndPublish_pose)

lemma imageCallback_transforms:
  "transforms (fst (imageCallback cfg st f)) =
     (if images_ok f \<and> status f = SUCCESS \<and> publish_tf cfg
      then [\<lparr>st_transform =
               compose_base (if can_transform f then lookup_transform f else identity_transform)
                 (transform_of (pose_rotation (engine_pose f)) (pose_translation (engine_pose f))),
             st_stamp = l_stamp f, st_frame_id = odom_frame_id cfg,
             st_child_frame_id = base_link_frame_id cfg\<rparr>]
      else [])"
  by (simp add: imageCallback_fst trace_append ensure_odometer_silent mountAndPublish_transforms
      publish_transform_transforms)

lemma imageCallback_last_time:
  "snd (imageCallback cfg st f) = Inr st' \<Longrightarrow>
     last_time st' = (if status f = SUCCESS then l_stamp f else last_time st)"
  by (auto simp: imageCallback_snd mountAndPublish_snd ensure_odometer_keeps split: if_splits)

lemma scenario_images_ok: "images_ok (scenario_frame t v s c)"
  by (simp add: images_ok_def scenario_frame_def)

lemma scenario_fields:
  "l_stamp (scenario_frame t v s c) = t"
  "l_info (scenario_frame t v s c) = \<lparr>info_height = 480, info_width = 640\<rparr>"
  "r_info (scenario_frame t v s c) = \<lparr>info_height = 480, info_width = 640\<rparr>"
  "camera_model (scenario_frame t v s c) = scenario_model"
  "status (scenario_frame t v s c) = s"
  "engine_pose (scenario_frame t v s c) =
     \<lparr>pose_translation = \<lparr>vx = 1, vy = 2, vz = 3\<rparr>,
      pose_rotation = \<lparr>qx = 0, qy = 0, qz = 1, qw = 0\<rparr>\<rparr>"
  "motion_estimate (scenario_frame t v s c) = v"
  "motion_cov (scenario_frame t v s c) = (\<lambda>i j. real (10 * i + j))"
  "can_transform (scenario_frame t v s c) = c"
  "lookup_transform (scenario_frame t v s c) =
     \<lparr>basis = identity_matrix, origin = \<lparr>vx = 1 / 2, vy = 0, vz = 0\<rparr>\<rparr>"
  "now (scenario_frame t v s c) = real t / 1000000000"
  by (simp_all add: scenario_frame_def)

lemma scenario_state_fields:
  "visual_odometer (scenario_state t h) =
     Some (left_intrinsics scenario_model \<lparr>info_height = 480, info_width = 640\<rparr>)"
  "last_time (scenario_state t h) = t"
  "last_hit (scenario_state t h) = h"
  by (simp_all add: scenario_state_def)

lemma scenario_first_frame:
  "snd (imageCallback default_config initial_state (scenario_frame t v SUCCESS c)) =
     Inr (scenario_state t (if c \<or> real t / 1000000000 < 10 then 0 else real t / 1000000000))"
  by (simp add: imageCallback_snd mountAndPublish_snd publish_transform_snd ensure_odometer_snd
      resolve_base_to_sensor_def warn_throttle_def default_config_def initial_state_def
      scenario_images_ok scenario_fields scenario_state_def)

lemma toSec_diff_pos: "(0 < toSec_diff a b) = (b < a)"
  by (simp add: toSec_diff_def)

lemma mount_twist_linear:
  "twist_linear (mount_twist st mo t (mount_pose cfg p t)) =
     (if last_time st \<noteq> 0 \<and> last_time st < t
      then \<lparr>vx = vx (motion_translation mo) / to_float (toSec_diff t (last_time st)),
            vy = vy (motion_translation mo) / to_float (toSec_diff t (last_time st)),
            vz = vz (motion_translation mo) / to_float (toSec_diff t (last_time st))\<rparr>
      else zero_vector)"
  by (simp add: mount_twist_def mount_pose_def new_Odometry_def Let_def isZero_def
      to_float_pos_iff toSec_diff_pos)

lemma mount_twist_angular:
  "twist_angular (mount_twist st mo t (mount_pose cfg p t)) =
     (if last_time st \<noteq> 0 \<and> last_time st < t
      then \<lparr>vx = vx (aa_axis mo) * aa_angle mo / to_float (toSec_diff t (last_time st)),
            vy = vy (aa_axis mo) * aa_angle mo / to_float (toSec_diff t (last_time st)),
            vz = vz (aa_axis mo) * aa_angle mo / to_float (toSec_diff t (last_time st))\<rparr>
      else zero_vector)"
  by (simp add: mount_twist_def mount_pose_def new_Odometry_def Let_def isZero_def
      to_float_pos_iff toSec_diff_pos)

lemma imageCallback_continues:
  assumes "images_ok f"
  shows "\<exists>st'. imageCallback cfg st f = (fst (imageCallback cfg st f), Inr st')
           \<and> last_time st' = (if status f = SUCCESS then l_stamp f else last_time st)"
proof -
  have "\<exists>st'. snd (imageCallback cfg st f) = Inr st'"
    using assms by (cases "status f = SUCCESS") (simp_all add: imageCallback_snd)
  then obtain st' where s: "snd (imageCallback cfg st f) = Inr st'" ..
  then have "imageCallback cfg st f = (fst (imageCallback cfg st f), Inr st')"
    by (metis prod.collapse)
  then show ?thesis using imageCallback_last_time[OF s] by blast
qed

declare run.simps [simp del]

lemma run_Cons_fst:
  "fst (run cfg st (f # fs)) =
     fst (imageCallback cfg st f) @
     (case snd (imageCallback cfg st f) of Inl e \<Rightarrow> [] | Inr st' \<Rightarrow> fst (run cfg st' fs))"
  by (simp add: run.simps case_prod_beta split: prod.splits sum.splits)

lemma run_Cons_snd:
  "snd (run cfg st (f # fs)) =
     (case snd (imageCallback cfg st f) of Inl e \<Rightarrow> Inl e | Inr st' \<Rightarrow> snd (run cfg st' fs))"
  by (simp add: run.simps case_prod_beta split: prod.splits sum.splits)

lemma run_Nil: "run cfg st [] = ([], Inr st)"
  by (simp add: run.simps)

lemma run_Cons_continues:
  assumes "imageCallback cfg st f = (ev, Inr st')"
  shows "fst (run cfg st (f # fs)) = ev @ fst (run cfg st' fs)"
    and "snd (run cfg st (f # fs)) = snd (run cfg st' fs)"
  using assms by (simp_all add: run.simps case_prod_beta)

lemma imageCallback_failure:
  assumes "images_ok f" and "status f \<noteq> SUCCESS"
  shows "imageCallback cfg s f =
           (fst (ensure_odometer s f) @ [LogError (status f)], Inr (snd (ensure_odometer s f)))"
  using assms by (simp add: imageCallback_def case_prod_beta)

lemma imageCallback_constructions:
  "constructions (fst (imageCallback cfg st f)) =
     (if visual_odometer st = None
      then [NewStereoDepth (stereo_parameters (camera_model f) (l_info f) (r_info f)),
            NewVisualOdometry (left_intrinsics (camera_model f) (l_info f))]
      else [])"
  by (simp add: imageCallback_fst ensure_odometer_fst mountAndPublish_fst publish_transform_fst
      resolve_base_to_sensor_def warn_throttle_def constructions_def)

lemma imageCallback_handles:
  assumes "snd (imageCallback cfg st f) = Inr st'"
  shows "visual_odometer st' = visual_odometer (snd (ensure_odometer st f))"
    and "stereo_depth st' = stereo_depth (snd (ensure_odometer st f))"
  using assms
  by (auto simp: imageCallback_snd mountAndPublish_snd split: if_splits)

lemma run_reuses_handles:
  assumes "visual_odometer st \<noteq> None"
  shows "constructions (fst (run cfg st fs)) = []
     \<and> (\<forall>st'. snd (run cfg st fs) = Inr st' \<longrightarrow>
           visual_odometer st' = visual_odometer st \<and> stereo_depth st' = stereo_depth st)"
  using assms
proof (induction fs arbitrary: st)
  case Nil
  show ?case by (simp add: run_Nil constructions_def)
next
  case (Cons f fs)
  have none: "constructions (fst (imageCallback cfg st f)) = []"
    using Cons.prems by (simp add: imageCallback_constructions)
  show ?case
  proof (cases "snd (imageCallback cfg st f)")
    case (Inl e)
    have "fst (run cfg st (f # fs)) = fst (imageCallback cfg st f)"
      and "snd (run cfg st (f # fs)) = Inl e"
      by (simp_all add: run_Cons_fst run_Cons_snd Inl)
    then show ?thesis using none by simp
  next
    case (Inr st1)
    have keep: "visual_odometer st1 = visual_odometer st" "stereo_depth st1 = stereo_depth st"
      using imageCallback_handles[OF Inr] Cons.prems by (simp_all add: ensure_odometer_snd)
    have "visual_odometer st1 \<noteq> None" using Cons.prems keep(1) by simp
    from Cons.IH[OF this]
    have rest: "constructions (fst (run cfg st1 fs)) = []"
      and last: "\<And>st'. snd (run cfg st1 fs) = Inr st' \<Longrightarrow>
           visual_odometer st' = visual_odometer st1 \<and> stereo_depth st' = stereo_depth st1"
      by blast+
    have f: "fst (run cfg st (f # fs)) = fst (imageCallback cfg st f) @ fst (run cfg st1 fs)"
      and s: "snd (run cfg st (f # fs)) = snd (run cfg st1 fs)"
      by (simp_all add: run_Cons_fst run_Cons_snd Inr)
    have quiet: "constructions (fst (run cfg st (f # fs))) = []"
      unfolding f using none rest by (simp add: constructions_append)
    have kept: "visual_odometer st' = visual_odometer st \<and> stereo_depth st' = stereo_depth st"
      if "snd (run cfg st (f # fs)) = Inr st'" for st'
    proof -
      have "snd (run cfg st1 fs) = Inr st'" using that unfolding s .
      from last[OF this] show ?thesis unfolding keep .
    qed
    show ?thesis using quiet kept by blast
  qed
qed

lemma run_continues:
  assumes "images_ok fa" and "images_ok fb"
  shows "\<exists>st'. snd (run cfg st [fa, fb]) = Inr st'"
proof -
  obtain st1 where c1: "imageCallback cfg st fa = (fst (imageCallback cfg st fa), Inr st1)"
    using imageCallback_continues[OF assms(1), of cfg st] by auto
  obtain st2 where c2: "imageCallback cfg st1 fb = (fst (imageCallback cfg st1 fb), Inr st2)"
    using imageCallback_continues[OF assms(2), of cfg st1] by auto
  have "snd (run cfg st [fa, fb]) = Inr st2"
    using run_Cons_continues(2)[OF c1, of "[fb]"] run_Cons_continues(2)[OF c2, of "[]"]
    by (simp add: run_Nil)
  then show ?thesis by blast
qed

lemma compose_base_identity: "compose_base identity_transform p = p"
proof -
  obtain b c where p: "p = \<lparr>basis = b, origin = c\<rparr>" by (cases p) auto
  obtain r0 r1 r2 where b: "b = \<lparr>row0 = r0, row1 = r1, row2 = r2\<rparr>" by (cases b) auto
  obtain a0 a1 a2 where r0: "r0 = \<lparr>vx = a0, vy = a1, vz = a2\<rparr>" by (cases r0) auto
  obtain b0 b1 b2 where r1: "r1 = \<lparr>vx = b0, vy = b1, vz = b2\<rparr>" by (cases r1) auto
  obtain c0 c1 c2 where r2: "r2 = \<lparr>vx = c0, vy = c1, vz = c2\<rparr>" by (cases r2) auto
  obtain o0 o1 o2 where c: "c = \<lparr>vx = o0, vy = o1, vz = o2\<rparr>" by (cases c) auto
  show ?thesis
    unfolding p b r0 r1 r2 c
    by (simp add: compose_base_def transform_mul_def inverse_transform_def mat_mul_def
        mat_vec_def transpose3_def apply_transform_def identity_transform_def identity_matrix_def
        zero_vector_def negate_def dot_def Let_def)
qed

lemma imageCallback_warn_times:
  "warn_times (fst (imageCallback cfg st f)) =
     (if images_ok f \<and> status f = SUCCESS \<and> publish_tf cfg \<and> \<not> can_transform f
         \<and> last_hit st + 10 \<le> now f
      then [now f] else [])"
  by (simp add: imageCallback_fst mountAndPublish_fst publish_transform_fst
      resolve_base_to_sensor_def warn_throttle_def trace_append ensure_odometer_silent
      ensure_odometer_keeps)

lemma imageCallback_last_hit:
  assumes "snd (imageCallback cfg st f) = Inr st'"
  shows "last_hit st' =
     (if status f = SUCCESS \<and> publish_tf cfg \<and> \<not> can_transform f \<and> last_hit st + 10 \<le> now f
      then now f else last_hit st)"
  using assms
  by (auto simp: imageCallback_snd mountAndPublish_snd publish_transform_snd
      resolve_base_to_sensor_def warn_throttle_def ensure_odometer_keeps split: if_splits)

lemma spaced_Cons:
  assumes "spaced p ts" and "\<forall>u\<in>set ts. t + p \<le> u"
  shows "spaced p (t # ts)"
  using assms by (cases ts) simp_all

lemma run_warn_spaced:
  "spaced 10 (warn_times (fst (run cfg st fs)))
     \<and> (\<forall>u\<in>set (warn_times (fst (run cfg st fs))). last_hit st + 10 \<le> u)"
proof (induction fs arbitrary: st)
  case Nil
  show ?case by (simp add: run_Nil)
next
  case (Cons f fs)
  show ?case
  proof (cases "snd (imageCallback cfg st f)")
    case (Inl e)
    have "fst (run cfg st (f # fs)) = fst (imageCallback cfg st f)"
      by (simp add: run_Cons_fst Inl)
    then show ?thesis by (simp add: imageCallback_warn_times)
  next
    case (Inr st1)
    have f: "warn_times (fst (run cfg st (f # fs))) =
        warn_times (fst (imageCallback cfg st f)) @ warn_times (fst (run cfg st1 fs))"
      by (simp add: run_Cons_fst Inr warn_times_append)
    note hit = imageCallback_last_hit[OF Inr]
    have rest: "spaced 10 (warn_times (fst (run cfg st1 fs)))"
      and later: "\<forall>u\<in>set (warn_times (fst (run cfg st1 fs))). last_hit st1 + 10 \<le> u"
      using Cons.IH[of st1] by blast+
    show ?thesis
    proof (cases "warn_times (fst (imageCallback cfg st f)) = []")
      case True
      then have "last_hit st1 = last_hit st"
        using hit Inr by (auto simp: imageCallback_warn_times imageCallback_snd split: if_splits)
      then show ?thesis using True rest later by (simp add: f)
    next
      case False
      then have w: "warn_times (fst (imageCallback cfg st f)) = [now f]"
        and n: "last_hit st + 10 \<le> now f" and h: "last_hit st1 = now f"
        using hit by (auto simp: imageCallback_warn_times split: if_splits)
      have "\<forall>u\<in>set (warn_times (fst (run cfg st1 fs))). now f + 10 \<le> u"
        using later h by simp
      then have "spaced 10 (now f # warn_times (fst (run cfg st1 fs)))"
        and "\<forall>u\<in>set (warn_times (fst (run cfg st1 fs))). last_hit st + 10 \<le> u"
        using rest n by (auto intro: spaced_Cons)
      then show ?thesis using n by (simp add: f w)
    qed
  qed
qed

lemma run_Cons_images_ok:
  assumes "images_ok f"
  shows "fst (run cfg st (f # fs)) =
           fst (imageCallback cfg st f) @ fst (run cfg (projr (snd (imageCallback cfg st f))) fs)"
    and "snd (run cfg st (f # fs)) = snd (run cfg (projr (snd (imageCallback cfg st f))) fs)"
proof -
  obtain st' where c: "imageCallback cfg st f = (fst (imageCallback cfg st f), Inr st')"
    using imageCallback_continues[OF assms, of cfg st] by auto
  then have "projr (snd (imageCallback cfg st f)) = st'"
    by (metis snd_conv sum.sel(2))
  then show "fst (run cfg st (f # fs)) =
           fst (imageCallback cfg st f) @ fst (run cfg (projr (snd (imageCallback cfg st f))) fs)"
    and "snd (run cfg st (f # fs)) = snd (run cfg (projr (snd (imageCallback cfg st f))) fs)"
    using run_Cons_continues[OF c, of fs] by simp_all
qed

lemma next_last_hit:
  assumes "images_ok f"
  shows "last_hit (projr (snd (imageCallback cfg st f))) =
     (if status f = SUCCESS \<and> publish_tf cfg \<and> \<not> can_transform f \<and> last_hit st + 10 \<le> now f
      then now f else last_hit st)"
proof -
  obtain st' where c: "imageCallback cfg st f = (fst (imageCallback cfg st f), Inr st')"
    using imageCallback_continues[OF assms, of cfg st] by auto
  then have s: "snd (imageCallback cfg st f) = Inr st'"
    by (metis snd_conv)
  show ?thesis using imageCallback_last_hit[OF s] by (simp add: s)
qed

lemma mount_pose_cong:
  assumes "odom_frame_id c = odom_frame_id c'" and "base_link_frame_id c = base_link_frame_id c'"
  shows "mount_pose c p t = mount_pose c' p t"
  using assms by (simp add: mount_pose_def)

lemma imageCallback_messages_cong:
  assumes "last_time s = last_time s'"
    and "odom_frame_id c = odom_frame_id c'" and "base_link_frame_id c = base_link_frame_id c'"
  shows "odom_messages (fst (imageCallback c s f)) = odom_messages (fst (imageCallback c' s' f))"
    and "pose_messages (fst (imageCallback c s f)) = pose_messages (fst (imageCallback c' s' f))"
  using mount_twist_cong[OF assms(1)] mount_pose_cong[OF assms(2,3)]
  by (simp_all add: imageCallback_odom imageCallback_pose)

lemma run_messages_cong:
  assumes "last_time s = last_time s'"
    and "odom_frame_id c = odom_frame_id c'" and "base_link_frame_id c = base_link_frame_id c'"
  shows "odom_messages (fst (run c s fs)) = odom_messages (fst (run c' s' fs))
     \<and> pose_messages (fst (run c s fs)) = pose_messages (fst (run c' s' fs))"
  using assms(1)
proof (induction fs arbitrary: s s')
  case Nil
  show ?case by (simp add: run_Nil)
next
  case (Cons f fs)
  note here = imageCallback_messages_cong[OF Cons.prems assms(2,3), of f]
  show ?case
  proof (cases "images_ok f")
    case False
    then have "snd (imageCallback c s f) = Inl AssertionFailed"
      and "snd (imageCallback c' s' f) = Inl AssertionFailed"
      by (simp_all add: imageCallback_snd)
    then show ?thesis using here by (simp add: run_Cons_fst)
  next
    case True
    obtain s1 where c1: "imageCallback c s f = (fst (imageCallback c s f), Inr s1)"
      and t1: "last_time s1 = (if status f = SUCCESS then l_stamp f else last_time s)"
      using imageCallback_continues[OF True, of c s] by auto
    obtain s1' where c1': "imageCallback c' s' f = (fst (imageCallback c' s' f), Inr s1')"
      and t1': "last_time s1' = (if status f = SUCCESS then l_stamp f else last_time s')"
      using imageCallback_continues[OF True, of c' s'] by auto
    have "last_time s1 = last_time s1'"
      using t1 t1' Cons.prems by simp
    from Cons.IH[OF this] show ?thesis
      using here run_Cons_continues(1)[OF c1, of fs] run_Cons_continues(1)[OF c1', of fs]
      by (simp add: trace_append)
  qed
qed

lemma run_without_tf:
  assumes "\<not> publish_tf c"
  shows "transforms (fst (run c s fs)) = []"
proof (induction fs arbitrary: s)
  case Nil
  show ?case by (simp add: run_Nil)
next
  case (Cons f fs)
  show ?case
    using assms Cons.IH
    by (simp add: run_Cons_fst trace_append imageCallback_transforms split: sum.splits)
qed

subsection \<open>Claim C1\<close>

text \<open>
  Claim C1. For every successful frame the odometry message carries the engine's 6 by 6
  motion covariance transposed and otherwise unchanged: the entry \<open>(i, j)\<close> of the matrix
  is the entry at flat index \<open>j * 6 + i\<close> of the twist covariance, for all \<open>i\<close> and \<open>j\<close>
  below 6.
\<close>

theorem covariance_transposed:
  assumes "images_ok f" and "status f = SUCCESS" and "i < 6" and "j < 6"
  shows "\<exists>m. odom_messages (fst (imageCallback cfg st f)) = [m]
           \<and> length (twist_covariance m) = 36
           \<and> twist_covariance m ! (j * 6 + i) = motion_cov f i j"
proof -
  have "j * 6 + i < 36" using assms(3,4) by simp
  then show ?thesis
    using assms(1,2)
    by (simp add: imageCallback_odom fill_twist_covariance_length fill_twist_covariance_nth assms(3,4))
qed

theorem covariance_transposed_witness:
  "images_ok (scenario_frame 1000000000 still SUCCESS False)
   \<and> status (scenario_frame 1000000000 still SUCCESS False) = SUCCESS
   \<and> (2::nat) < 6 \<and> (3::nat) < 6
   \<and> (\<exists>m. odom_messages (fst (imageCallback default_config initial_state
              (scenario_frame 1000000000 still SUCCESS False))) = [m]
          \<and> length (twist_covariance m) = 36
          \<and> twist_covariance m ! 20 = 23)"
  using covariance_transposed [of "scenario_frame 1000000000 still SUCCESS False" 2 3
      default_config initial_state]
  by (simp add: scenario_images_ok scenario_fields)

subsection \<open>Claim C2\<close>

text \<open>
  Claim C2, as the code has it. For two successful frames in a row, the twist of the
  second odometry message is computed from the incremental motion (divided by the elapsed
  time as a \<^verbatim>\<open>float\<close>) exactly when the stamp of the first is not zero and the elapsed
  time is positive; otherwise both twist vectors
  keep the zero they were constructed with. The same holds for a first frame, whose
  stored last stamp is zero.
\<close>

theorem velocity_iff_elapsed:
  assumes "images_ok f1" and "status f1 = SUCCESS" and "images_ok f2" and "status f2 = SUCCESS"
  shows "\<exists>m1 m2. odom_messages (fst (run cfg st [f1, f2])) = [m1, m2]
     \<and> (if \<not> isZero (l_stamp f1) \<and> 0 < toSec_diff (l_stamp f2) (l_stamp f1)
        then twist_linear m2 =
               \<lparr>vx = vx (motion_translation (motion_estimate f2)) / to_float (toSec_diff (l_stamp f2) (l_stamp f1)),
                vy = vy (motion_translation (motion_estimate f2)) / to_float (toSec_diff (l_stamp f2) (l_stamp f1)),
                vz = vz (motion_translation (motion_estimate f2)) / to_float (toSec_diff (l_stamp f2) (l_stamp f1))\<rparr>
           \<and> twist_angular m2 =
               \<lparr>vx = vx (aa_axis (motion_estimate f2)) * aa_angle (motion_estimate f2)
                       / to_float (toSec_diff (l_stamp f2) (l_stamp f1)),
                vy = vy (aa_axis (motion_estimate f2)) * aa_angle (motion_estimate f2)
                       / to_float (toSec_diff (l_stamp f2) (l_stamp f1)),
                vz = vz (aa_axis (motion_estimate f2)) * aa_angle (motion_estimate f2)
                       / to_float (toSec_diff (l_stamp f2) (l_stamp f1))\<rparr>
        else twist_linear m2 = zero_vector \<and> twist_angular m2 = zero_vector)
     \<and> (isZero (last_time st) \<longrightarrow> twist_linear m1 = zero_vector \<and> twist_angular m1 = zero_vector)"
proof -
  obtain st1 where c1: "imageCallback cfg st f1 = (fst (imageCallback cfg st f1), Inr st1)"
    and t1: "last_time st1 = l_stamp f1"
    using imageCallback_continues[OF assms(1), of cfg st] assms(2) by auto
  obtain st2 where c2: "imageCallback cfg st1 f2 = (fst (imageCallback cfg st1 f2), Inr st2)"
    using imageCallback_continues[OF assms(3), of cfg st1] by auto
  have "fst (run cfg st [f1, f2]) = fst (imageCallback cfg st f1) @ fst (imageCallback cfg st1 f2)"
    using run_Cons_continues(1)[OF c1, of "[f2]"] run_Cons_continues(1)[OF c2, of "[]"] by (simp add: run_Nil)
  then show ?thesis
    using assms t1
    by (simp add: trace_append imageCallback_odom mount_twist_linear mount_twist_angular
        isZero_def toSec_diff_pos)
qed

theorem velocity_iff_elapsed_witness:
  "images_ok (scenario_frame 1000000000 still SUCCESS False)
   \<and> status (scenario_frame 1000000000 still SUCCESS False) = SUCCESS
   \<and> images_ok (scenario_frame 1100000000 (moving \<lparr>vx = 1 / 100, vy = 0, vz = 0\<rparr>) SUCCESS False)
   \<and> status (scenario_frame 1100000000 (moving \<lparr>vx = 1 / 100, vy = 0, vz = 0\<rparr>) SUCCESS False) = SUCCESS
   \<and> isZero (last_time initial_state)
   \<and> (\<exists>m1 m2. odom_messages (fst (run default_config initial_state
          [scenario_frame 1000000000 still SUCCESS False,
           scenario_frame 1100000000 (moving \<lparr>vx = 1 / 100, vy = 0, vz = 0\<rparr>) SUCCESS False]))
          = [m1, m2]
        \<and> twist_linear m2 = \<lparr>vx = 33554432 / 335544325, vy = 0, vz = 0\<rparr>
        \<and> twist_angular m2 = \<lparr>vx = 0, vy = 0, vz = 134217728 / 67108865\<rparr>
        \<and> twist_linear m1 = zero_vector \<and> twist_angular m1 = zero_vector)"
  using velocity_iff_elapsed [of "scenario_frame 1000000000 still SUCCESS False"
      "scenario_frame 1100000000 (moving \<lparr>vx = 1 / 100, vy = 0, vz = 0\<rparr>) SUCCESS False"
      default_config initial_state]
  by (simp add: scenario_images_ok scenario_fields isZero_def toSec_diff_def moving_def
      initial_state_def to_float_tenth)

text \<open>
  Claim C2 as stated fails: the first odometry message of a run, for which no previous
  frame exists, has the linear and angular velocity zero, and it is the very message
  that the node emits for the same frame when a previous frame exists one second before
  and the engine has measured no motion.
\<close>

theorem velocity_unset_counterexample:
  "isZero (last_time initial_state)
   \<and> twist_linear (hd (odom_messages (fst (imageCallback default_config initial_state
        (scenario_frame 2000000000 (moving \<lparr>vx = 1 / 100, vy = 0, vz = 0\<rparr>) SUCCESS False)))))
       = \<lparr>vx = 0, vy = 0, vz = 0\<rparr>
   \<and> twist_angular (hd (odom_messages (fst (imageCallback default_config initial_state
        (scenario_frame 2000000000 (moving \<lparr>vx = 1 / 100, vy = 0, vz = 0\<rparr>) SUCCESS False)))))
       = \<lparr>vx = 0, vy = 0, vz = 0\<rparr>
   \<and> odom_messages (fst (imageCallback default_config initial_state
        (scenario_frame 2000000000 (moving \<lparr>vx = 1 / 100, vy = 0, vz = 0\<rparr>) SUCCESS False)))
     = odom_messages (fst (imageCallback default_config (scenario_state 1000000000 0)
        (scenario_frame 2000000000 still SUCCESS False)))"
  by (simp add: imageCallback_odom scenario_images_ok scenario_fields scenario_state_fields
      mount_twist_def mount_pose_def new_Odometry_def isZero_def to_float_pos_iff
      toSec_diff_pos initial_state_def still_def zero_vector_def Let_def)

subsection \<open>Claim C3\<close>

text \<open>
  Claim C3. A frame for which the engine reports a status other than \<^verbatim>\<open>SUCCESS\<close> emits
  no odometry, pose or transform message, leaves the last stamp as it was and returns a
  state, so the node goes on. With a successful frame before it and one after it, the
  messages of the run are those of the run without the failed frame: the velocity of the
  last frame is the incremental motion divided by the time elapsed since the first
  frame's stamp, as the \<^verbatim>\<open>float\<close> that holds it, whatever the stamp of the failed frame.
\<close>

theorem failed_frame_dropped:
  assumes "images_ok fa" and "status fa = SUCCESS"
    and "images_ok fb" and "status fb \<noteq> SUCCESS"
    and "images_ok fc" and "status fc = SUCCESS"
    and "\<not> isZero (l_stamp fa)" and "0 < toSec_diff (l_stamp fc) (l_stamp fa)"
  shows "(\<exists>ev s'. imageCallback cfg s fb = (ev, Inr s')
            \<and> odom_messages ev = [] \<and> pose_messages ev = [] \<and> transforms ev = []
            \<and> last_time s' = last_time s)
     \<and> (\<exists>m1 m3 st3. odom_messages (fst (run cfg st [fa, fb, fc])) = [m1, m3]
            \<and> odom_messages (fst (run cfg st [fa, fc])) = [m1, m3]
            \<and> pose_messages (fst (run cfg st [fa, fb, fc])) = [pose_of_odom m1, pose_of_odom m3]
            \<and> snd (run cfg st [fa, fb, fc]) = Inr st3 \<and> last_time st3 = l_stamp fc
            \<and> twist_linear m3 =
               \<lparr>vx = vx (motion_translation (motion_estimate fc)) / to_float (toSec_diff (l_stamp fc) (l_stamp fa)),
                vy = vy (motion_translation (motion_estimate fc)) / to_float (toSec_diff (l_stamp fc) (l_stamp fa)),
                vz = vz (motion_translation (motion_estimate fc)) / to_float (toSec_diff (l_stamp fc) (l_stamp fa))\<rparr>
            \<and> twist_angular m3 =
               \<lparr>vx = vx (aa_axis (motion_estimate fc)) * aa_angle (motion_estimate fc)
                       / to_float (toSec_diff (l_stamp fc) (l_stamp fa)),
                vy = vy (aa_axis (motion_estimate fc)) * aa_angle (motion_estimate fc)
                       / to_float (toSec_diff (l_stamp fc) (l_stamp fa)),
                vz = vz (aa_axis (motion_estimate fc)) * aa_angle (motion_estimate fc)
                       / to_float (toSec_diff (l_stamp fc) (l_stamp fa))\<rparr>)"
proof (intro conjI)
  show "\<exists>ev s'. imageCallback cfg s fb = (ev, Inr s')
            \<and> odom_messages ev = [] \<and> pose_messages ev = [] \<and> transforms ev = []
            \<and> last_time s' = last_time s"
    by (simp add: imageCallback_failure[OF assms(3,4)] trace_append ensure_odometer_silent
        ensure_odometer_keeps)
next
  obtain st1 where c1: "imageCallback cfg st fa = (fst (imageCallback cfg st fa), Inr st1)"
    and t1: "last_time st1 = l_stamp fa"
    using imageCallback_continues[OF assms(1), of cfg st] assms(2) by auto
  obtain st2 where c2: "imageCallback cfg st1 fb = (fst (imageCallback cfg st1 fb), Inr st2)"
    and t2: "last_time st2 = l_stamp fa"
    using imageCallback_continues[OF assms(3), of cfg st1] assms(4) t1 by auto
  obtain st3 where c3: "imageCallback cfg st2 fc = (fst (imageCallback cfg st2 fc), Inr st3)"
    and t3: "last_time st3 = l_stamp fc"
    using imageCallback_continues[OF assms(5), of cfg st2] assms(6) by auto
  obtain st3' where c3': "imageCallback cfg st1 fc = (fst (imageCallback cfg st1 fc), Inr st3')"
    using imageCallback_continues[OF assms(5), of cfg st1] by auto
  have long: "fst (run cfg st [fa, fb, fc]) =
      fst (imageCallback cfg st fa) @ fst (imageCallback cfg st1 fb) @ fst (imageCallback cfg st2 fc)"
    using run_Cons_continues(1)[OF c1, of "[fb, fc]"] run_Cons_continues(1)[OF c2, of "[fc]"]
      run_Cons_continues(1)[OF c3, of "[]"] by (simp add: run_Nil)
  have short: "fst (run cfg st [fa, fc]) =
      fst (imageCallback cfg st fa) @ fst (imageCallback cfg st1 fc)"
    using run_Cons_continues(1)[OF c1, of "[fc]"] run_Cons_continues(1)[OF c3', of "[]"]
    by (simp add: run_Nil)
  have final: "snd (run cfg st [fa, fb, fc]) = Inr st3"
    using run_Cons_continues(2)[OF c1, of "[fb, fc]"] run_Cons_continues(2)[OF c2, of "[fc]"]
      run_Cons_continues(2)[OF c3, of "[]"] by (simp add: run_Nil)
  have same: "mount_twist st2 (motion_estimate fc) (l_stamp fc) (mount_pose cfg (engine_pose fc) (l_stamp fc))
      = mount_twist st1 (motion_estimate fc) (l_stamp fc) (mount_pose cfg (engine_pose fc) (l_stamp fc))"
    by (rule mount_twist_cong) (simp add: t1 t2)
  show "\<exists>m1 m3 st3. odom_messages (fst (run cfg st [fa, fb, fc])) = [m1, m3]
            \<and> odom_messages (fst (run cfg st [fa, fc])) = [m1, m3]
            \<and> pose_messages (fst (run cfg st [fa, fb, fc])) = [pose_of_odom m1, pose_of_odom m3]
            \<and> snd (run cfg st [fa, fb, fc]) = Inr st3 \<and> last_time st3 = l_stamp fc
            \<and> twist_linear m3 =
               \<lparr>vx = vx (motion_translation (motion_estimate fc)) / to_float (toSec_diff (l_stamp fc) (l_stamp fa)),
                vy = vy (motion_translation (motion_estimate fc)) / to_float (toSec_diff (l_stamp fc) (l_stamp fa)),
                vz = vz (motion_translation (motion_estimate fc)) / to_float (toSec_diff (l_stamp fc) (l_stamp fa))\<rparr>
            \<and> twist_angular m3 =
               \<lparr>vx = vx (aa_axis (motion_estimate fc)) * aa_angle (motion_estimate fc)
                       / to_float (toSec_diff (l_stamp fc) (l_stamp fa)),
                vy = vy (aa_axis (motion_estimate fc)) * aa_angle (motion_estimate fc)
                       / to_float (toSec_diff (l_stamp fc) (l_stamp fa)),
                vz = vz (aa_axis (motion_estimate fc)) * aa_angle (motion_estimate fc)
                       / to_float (toSec_diff (l_stamp fc) (l_stamp fa))\<rparr>"
    using assms t1 t3
    by (simp add: long short final same trace_append imageCallback_odom imageCallback_pose
        mount_twist_linear mount_twist_angular isZero_def toSec_diff_pos)
qed

theorem failed_frame_dropped_witness:
  "images_ok (scenario_frame 1000000000 still SUCCESS False)
   \<and> status (scenario_frame 1000000000 still SUCCESS False) = SUCCESS
   \<and> images_ok (scenario_frame 1050000000 still NO_DATA False)
   \<and> status (scenario_frame 1050000000 still NO_DATA False) \<noteq> SUCCESS
   \<and> images_ok (scenario_frame 1100000000 (moving \<lparr>vx = 1 / 100, vy = 0, vz = 0\<rparr>) SUCCESS False)
   \<and> status (scenario_frame 1100000000 (moving \<lparr>vx = 1 / 100, vy = 0, vz = 0\<rparr>) SUCCESS False) = SUCCESS
   \<and> \<not> isZero (1000000000 :: nat)
   \<and> toSec_diff 1100000000 1000000000 = 1 / 10
   \<and> (\<exists>ev s'. imageCallback default_config (scenario_state 1000000000 0)
                  (scenario_frame 1050000000 still NO_DATA False) = (ev, Inr s')
            \<and> odom_messages ev = [] \<and> pose_messages ev = [] \<and> transforms ev = []
            \<and> last_time s' = 1000000000)
   \<and> (\<exists>m1 m3 st3. odom_messages (fst (run default_config initial_state
          [scenario_frame 1000000000 still SUCCESS False,
           scenario_frame 1050000000 still NO_DATA False,
           scenario_frame 1100000000 (moving \<lparr>vx = 1 / 100, vy = 0, vz = 0\<rparr>) SUCCESS False]))
          = [m1, m3]
        \<and> odom_messages (fst (run default_config initial_state
          [scenario_frame 1000000000 still SUCCESS False,
           scenario_frame 1100000000 (moving \<lparr>vx = 1 / 100, vy = 0, vz = 0\<rparr>) SUCCESS False]))
          = [m1, m3]
        \<and> pose_messages (fst (run default_config initial_state
          [scenario_frame 1000000000 still SUCCESS False,
           scenario_frame 1050000000 still NO_DATA False,
           scenario_frame 1100000000 (moving \<lparr>vx = 1 / 100, vy = 0, vz = 0\<rparr>) SUCCESS False]))
          = [pose_of_odom m1, pose_of_odom m3]
        \<and> snd (run default_config initial_state
          [scenario_frame 1000000000 still SUCCESS False,
           scenario_frame 1050000000 still NO_DATA False,
           scenario_frame 1100000000 (moving \<lparr>vx = 1 / 100, vy = 0, vz = 0\<rparr>) SUCCESS False])
          = Inr st3
        \<and> last_time st3 = 1100000000
        \<and> twist_linear m3 = \<lparr>vx = 33554432 / 335544325, vy = 0, vz = 0\<rparr>
        \<and> twist_angular m3 = \<lparr>vx = 0, vy = 0, vz = 134217728 / 67108865\<rparr>)"
  using failed_frame_dropped [where fa = "scenario_frame 1000000000 still SUCCESS False"
      and fb = "scenario_frame 1050000000 still NO_DATA False"
      and fc = "scenario_frame 1100000000 (moving \<lparr>vx = 1 / 100, vy = 0, vz = 0\<rparr>) SUCCESS False"
      and cfg = default_config and st = initial_state and s = "scenario_state 1000000000 0"]
  by (simp add: scenario_images_ok scenario_fields scenario_state_fields moving_def
      toSec_diff_def isZero_def to_float_tenth)

subsection \<open>Claim C4\<close>

text \<open>
  Claim C4. Whatever the calibration, and so for every baseline above zero, the stereo
  parameters that \<^verbatim>\<open>initOdometer\<close> hands to the engine have the rotation \<open>[1, 0, 0, 0]\<close>,
  which is the identity quaternion in the engine's order w, x, y, z, and the translation
  \<open>(- baseline, 0, 0)\<close>.
\<close>

theorem extrinsics_from_baseline:
  "\<exists>sp lp st'. initOdometer st f = ([NewStereoDepth sp, NewVisualOdometry lp, LogInfo], st')
     \<and> stereo_depth st' = Some sp
     \<and> right_to_left_rotation sp = [1, 0, 0, 0]
     \<and> right_to_left_translation sp = [- baseline (camera_model f), 0, 0]"
  by (simp add: initOdometer_def stereo_parameters_def Let_def)

subsection \<open>Claim C5\<close>

text \<open>
  Claim C5. In any sequence of image-pair events that starts without an odometer, the two
  engine handles are constructed exactly once, by the first event and from the calibration
  delivered with it; every later event finds the handles and keeps them, whatever
  calibration it delivers, and at the end of the sequence they are still those of the
  first event.
\<close>

theorem engine_constructed_once:
  assumes "visual_odometer st = None"
  shows "constructions (fst (imageCallback cfg st f)) =
           [NewStereoDepth (stereo_parameters (camera_model f) (l_info f) (r_info f)),
            NewVisualOdometry (left_intrinsics (camera_model f) (l_info f))]
     \<and> constructions (fst (run cfg st (f # fs))) = constructions (fst (imageCallback cfg st f))
     \<and> (\<forall>st'. snd (run cfg st (f # fs)) = Inr st' \<longrightarrow>
           visual_odometer st' = Some (left_intrinsics (camera_model f) (l_info f))
           \<and> stereo_depth st' =
               Some (stereo_parameters (camera_model f) (l_info f) (r_info f)))"
proof (cases "snd (imageCallback cfg st f)")
  case (Inl e)
  have "fst (run cfg st (f # fs)) = fst (imageCallback cfg st f)"
    and "snd (run cfg st (f # fs)) = Inl e"
    by (simp_all add: run_Cons_fst run_Cons_snd Inl)
  then show ?thesis
    using assms by (simp add: imageCallback_constructions)
next
  case (Inr st1)
  have first: "visual_odometer st1 = Some (left_intrinsics (camera_model f) (l_info f))"
    "stereo_depth st1 = Some (stereo_parameters (camera_model f) (l_info f) (r_info f))"
    using imageCallback_handles[OF Inr] assms by (simp_all add: ensure_odometer_snd)
  have "visual_odometer st1 \<noteq> None" using first(1) by simp
  from run_reuses_handles[OF this, of cfg fs]
  have rest: "constructions (fst (run cfg st1 fs)) = []"
    and last: "\<And>st'. snd (run cfg st1 fs) = Inr st' \<Longrightarrow>
         visual_odometer st' = visual_odometer st1 \<and> stereo_depth st' = stereo_depth st1"
    by blast+
  have f: "fst (run cfg st (f # fs)) = fst (imageCallback cfg st f) @ fst (run cfg st1 fs)"
    and s: "snd (run cfg st (f # fs)) = snd (run cfg st1 fs)"
    by (simp_all add: run_Cons_fst run_Cons_snd Inr)
  have once: "constructions (fst (imageCallback cfg st f)) =
           [NewStereoDepth (stereo_parameters (camera_model f) (l_info f) (r_info f)),
            NewVisualOdometry (left_intrinsics (camera_model f) (l_info f))]"
    using assms by (simp add: imageCallback_constructions)
  have quiet: "constructions (fst (run cfg st (f # fs))) = constructions (fst (imageCallback cfg st f))"
    unfolding f using rest by (simp add: constructions_append)
  have kept: "visual_odometer st' = Some (left_intrinsics (camera_model f) (l_info f))
           \<and> stereo_depth st' = Some (stereo_parameters (camera_model f) (l_info f) (r_info f))"
    if "snd (run cfg st (f # fs)) = Inr st'" for st'
  proof -
    have "snd (run cfg st1 fs) = Inr st'" using that unfolding s .
    from last[OF this] show ?thesis unfolding first .
  qed
  show ?thesis using once quiet kept by blast
qed

theorem engine_constructed_once_witness:
  "visual_odometer initial_state = None
   \<and> camera_model ((scenario_frame 1100000000 still SUCCESS False)
        \<lparr>camera_model := scenario_model\<lparr>baseline := 1 / 2\<rparr>\<rparr>)
       \<noteq> camera_model (scenario_frame 1000000000 still SUCCESS False)
   \<and> constructions (fst (run default_config initial_state
        [scenario_frame 1000000000 still SUCCESS False,
         (scenario_frame 1100000000 still SUCCESS False)
           \<lparr>camera_model := scenario_model\<lparr>baseline := 1 / 2\<rparr>\<rparr>]))
     = [NewStereoDepth (stereo_parameters scenario_model
          \<lparr>info_height = 480, info_width = 640\<rparr> \<lparr>info_height = 480, info_width = 640\<rparr>),
        NewVisualOdometry (left_intrinsics scenario_model \<lparr>info_height = 480, info_width = 640\<rparr>)]
   \<and> (\<exists>st'. snd (run default_config initial_state
        [scenario_frame 1000000000 still SUCCESS False,
         (scenario_frame 1100000000 still SUCCESS False)
           \<lparr>camera_model := scenario_model\<lparr>baseline := 1 / 2\<rparr>\<rparr>]) = Inr st'
        \<and> visual_odometer st' =
            Some (left_intrinsics scenario_model \<lparr>info_height = 480, info_width = 640\<rparr>)
        \<and> stereo_depth st' =
            Some (stereo_parameters scenario_model
              \<lparr>info_height = 480, info_width = 640\<rparr> \<lparr>info_height = 480, info_width = 640\<rparr>))"
proof -
  have ok: "images_ok (scenario_frame 1000000000 still SUCCESS False)"
    "images_ok ((scenario_frame 1100000000 still SUCCESS False)
        \<lparr>camera_model := scenario_model\<lparr>baseline := 1 / 2\<rparr>\<rparr>)"
    by (simp_all add: images_ok_def scenario_frame_def)
  have none: "visual_odometer initial_state = None"
    by (simp add: initial_state_def)
  have differ: "camera_model ((scenario_frame 1100000000 still SUCCESS False)
        \<lparr>camera_model := scenario_model\<lparr>baseline := 1 / 2\<rparr>\<rparr>)
       \<noteq> camera_model (scenario_frame 1000000000 still SUCCESS False)"
    by (simp add: scenario_fields scenario_model_def)
  obtain st' where fin: "snd (run default_config initial_state
        [scenario_frame 1000000000 still SUCCESS False,
         (scenario_frame 1100000000 still SUCCESS False)
           \<lparr>camera_model := scenario_model\<lparr>baseline := 1 / 2\<rparr>\<rparr>]) = Inr st'"
    using run_continues[OF ok] by blast
  show ?thesis
    using engine_constructed_once [OF none, of default_config
        "scenario_frame 1000000000 still SUCCESS False"
        "[(scenario_frame 1100000000 still SUCCESS False)
           \<lparr>camera_model := scenario_model\<lparr>baseline := 1 / 2\<rparr>\<rparr>]"]
      none differ fin
    by (simp add: scenario_fields)
qed

subsection \<open>Claim C6\<close>

text \<open>
  Claim C6, as the code has it. When the velocity of a successful frame is computed (the
  last stamp is not zero and the elapsed time is positive), each linear component is the
  component of the incremental translation divided by \<open>dt\<close>, and each angular component
  is the axis component times the angle, divided by \<open>dt\<close>, where \<open>dt\<close> is the elapsed
  time rounded to single precision, which is within one part in \<open>2 ^ 24\<close> of the elapsed
  time. In the spec's scenario, two successful frames 0.1 s apart with the incremental
  translation \<open>(0.01, 0, 0)\<close>, the linear velocity is \<open>(33554432 / 335544325, 0, 0)\<close>,
  which is 0.0999999985 to ten places and so about \<open>(0.1, 0, 0)\<close>.
\<close>

theorem velocity_from_motion:
  assumes "images_ok f" and "status f = SUCCESS"
    and "\<not> isZero (last_time st)" and "0 < toSec_diff (l_stamp f) (last_time st)"
  shows "\<exists>m. odom_messages (fst (imageCallback cfg st f)) = [m]
           \<and> twist_linear m =
               \<lparr>vx = vx (motion_translation (motion_estimate f))
                       / to_float (toSec_diff (l_stamp f) (last_time st)),
                vy = vy (motion_translation (motion_estimate f))
                       / to_float (toSec_diff (l_stamp f) (last_time st)),
                vz = vz (motion_translation (motion_estimate f))
                       / to_float (toSec_diff (l_stamp f) (last_time st))\<rparr>
           \<and> twist_angular m =
               \<lparr>vx = vx (aa_axis (motion_estimate f)) * aa_angle (motion_estimate f)
                       / to_float (toSec_diff (l_stamp f) (last_time st)),
                vy = vy (aa_axis (motion_estimate f)) * aa_angle (motion_estimate f)
                       / to_float (toSec_diff (l_stamp f) (last_time st)),
                vz = vz (aa_axis (motion_estimate f)) * aa_angle (motion_estimate f)
                       / to_float (toSec_diff (l_stamp f) (last_time st))\<rparr>
           \<and> \<bar>to_float (toSec_diff (l_stamp f) (last_time st))
                 - toSec_diff (l_stamp f) (last_time st)\<bar>
               \<le> toSec_diff (l_stamp f) (last_time st) / 2 ^ 24"
  using assms to_float_error[OF assms(4)]
  by (simp add: imageCallback_odom mount_twist_linear mount_twist_angular isZero_def toSec_diff_pos)

theorem velocity_from_motion_witness:
  "images_ok (scenario_frame 1100000000 (moving \<lparr>vx = 1 / 100, vy = 0, vz = 0\<rparr>) SUCCESS False)
   \<and> status (scenario_frame 1100000000 (moving \<lparr>vx = 1 / 100, vy = 0, vz = 0\<rparr>) SUCCESS False) = SUCCESS
   \<and> snd (imageCallback default_config initial_state
            (scenario_frame 1000000000 still SUCCESS False))
       = Inr (scenario_state 1000000000 0)
   \<and> \<not> isZero (last_time (scenario_state 1000000000 0))
   \<and> toSec_diff 1100000000 (last_time (scenario_state 1000000000 0)) = 1 / 10
   \<and> to_float (1 / 10) = 13421773 / 134217728
   \<and> (\<exists>m. odom_messages (fst (imageCallback default_config (scenario_state 1000000000 0)
              (scenario_frame 1100000000 (moving \<lparr>vx = 1 / 100, vy = 0, vz = 0\<rparr>) SUCCESS False))) = [m]
          \<and> twist_linear m = \<lparr>vx = 33554432 / 335544325, vy = 0, vz = 0\<rparr>
          \<and> twist_angular m = \<lparr>vx = 0, vy = 0, vz = 134217728 / 67108865\<rparr>)
   \<and> \<bar>33554432 / 335544325 - 1 / 10\<bar> < (1 / 500000000 :: real)"
  using velocity_from_motion [of "scenario_frame 1100000000 (moving \<lparr>vx = 1 / 100, vy = 0, vz = 0\<rparr>) SUCCESS False"
      "scenario_state 1000000000 0" default_config]
  by (simp add: scenario_images_ok scenario_fields scenario_state_fields scenario_first_frame
      isZero_def toSec_diff_def moving_def to_float_tenth)

text \<open>
  Claim C6 as stated fails at its own scenario: after a successful frame stamped 1 s, the
  successful frame stamped 1.1 s with the incremental translation \<open>(0.01, 0, 0)\<close> is
  published with the linear velocity \<open>(33554432 / 335544325, 0, 0)\<close>, which is not
  \<open>(0.1, 0, 0)\<close>, because 0.1 is rounded to the \<^verbatim>\<open>float\<close> 13421773 / 134217728 before
  the division.
\<close>

theorem velocity_exact_counterexample:
  "snd (imageCallback default_config initial_state
          (scenario_frame 1000000000 still SUCCESS False))
     = Inr (scenario_state 1000000000 0)
   \<and> toSec_diff 1100000000 1000000000 = 1 / 10
   \<and> twist_linear (hd (odom_messages (fst (imageCallback default_config
        (scenario_state 1000000000 0)
        (scenario_frame 1100000000 (moving \<lparr>vx = 1 / 100, vy = 0, vz = 0\<rparr>) SUCCESS False)))))
       = \<lparr>vx = 33554432 / 335544325, vy = 0, vz = 0\<rparr>
   \<and> twist_linear (hd (odom_messages (fst (imageCallback default_config
        (scenario_state 1000000000 0)
        (scenario_frame 1100000000 (moving \<lparr>vx = 1 / 100, vy = 0, vz = 0\<rparr>) SUCCESS False)))))
       \<noteq> \<lparr>vx = 1 / 10, vy = 0, vz = 0\<rparr>"
  by (simp add: imageCallback_odom mount_twist_linear scenario_images_ok scenario_fields
      scenario_state_fields scenario_first_frame toSec_diff_def moving_def to_float_tenth)

subsection \<open>Claim C7\<close>

text \<open>
  Claim C7. The transform that a successful frame broadcasts is the offset times the
  sensor pose times the inverse of the offset, where the offset is the one the listener
  gives, or the identity when it gives none. For every pose, composing with the identity
  offset changes nothing, so with the identity offset the broadcast transform is the
  sensor pose itself.
\<close>

theorem base_transform_composition:
  assumes "images_ok f" and "status f = SUCCESS" and "publish_tf cfg"
  shows "\<exists>tr. transforms (fst (imageCallback cfg st f)) = [tr]
     \<and> st_transform tr =
         transform_mul
           (transform_mul (if can_transform f then lookup_transform f else identity_transform)
              (transform_of (pose_rotation (engine_pose f)) (pose_translation (engine_pose f))))
           (inverse_transform (if can_transform f then lookup_transform f else identity_transform))
     \<and> transform_mul (transform_mul identity_transform p) (inverse_transform identity_transform) = p
     \<and> ((if can_transform f then lookup_transform f else identity_transform) = identity_transform
          \<longrightarrow> st_transform tr =
              transform_of (pose_rotation (engine_pose f)) (pose_translation (engine_pose f)))"
  using assms compose_base_identity[of p]
    compose_base_identity[of "transform_of (pose_rotation (engine_pose f))
      (pose_translation (engine_pose f))"]
  by (auto simp: imageCallback_transforms compose_base_def)

theorem base_transform_composition_witness:
  "images_ok (scenario_frame 1000000000 still SUCCESS False)
   \<and> status (scenario_frame 1000000000 still SUCCESS False) = SUCCESS
   \<and> publish_tf default_config
   \<and> (if can_transform (scenario_frame 1000000000 still SUCCESS False)
       then lookup_transform (scenario_frame 1000000000 still SUCCESS False)
       else identity_transform) = identity_transform
   \<and> (\<exists>tr. transforms (fst (imageCallback default_config initial_state
                (scenario_frame 1000000000 still SUCCESS False))) = [tr]
          \<and> st_transform tr =
              \<lparr>basis = \<lparr>row0 = \<lparr>vx = - 1, vy = 0, vz = 0\<rparr>,
                        row1 = \<lparr>vx = 0, vy = - 1, vz = 0\<rparr>,
                        row2 = \<lparr>vx = 0, vy = 0, vz = 1\<rparr>\<rparr>,
               origin = \<lparr>vx = 1, vy = 2, vz = 3\<rparr>\<rparr>)
   \<and> images_ok (scenario_frame 1000000000 still SUCCESS True)
   \<and> status (scenario_frame 1000000000 still SUCCESS True) = SUCCESS
   \<and> (\<exists>tr. transforms (fst (imageCallback default_config initial_state
                (scenario_frame 1000000000 still SUCCESS True))) = [tr]
          \<and> st_transform tr =
              \<lparr>basis = \<lparr>row0 = \<lparr>vx = - 1, vy = 0, vz = 0\<rparr>,
                        row1 = \<lparr>vx = 0, vy = - 1, vz = 0\<rparr>,
                        row2 = \<lparr>vx = 0, vy = 0, vz = 1\<rparr>\<rparr>,
               origin = \<lparr>vx = 2, vy = 2, vz = 3\<rparr>\<rparr>)"
proof -
  have unavailable: "\<exists>tr. transforms (fst (imageCallback default_config initial_state
                (scenario_frame 1000000000 still SUCCESS False))) = [tr]
          \<and> st_transform tr =
              \<lparr>basis = \<lparr>row0 = \<lparr>vx = - 1, vy = 0, vz = 0\<rparr>,
                        row1 = \<lparr>vx = 0, vy = - 1, vz = 0\<rparr>,
                        row2 = \<lparr>vx = 0, vy = 0, vz = 1\<rparr>\<rparr>,
               origin = \<lparr>vx = 1, vy = 2, vz = 3\<rparr>\<rparr>"
    using base_transform_composition [of "scenario_frame 1000000000 still SUCCESS False"
        default_config initial_state identity_transform]
    by (simp add: scenario_images_ok scenario_fields default_config_def transform_of_def
        setRotation_def Let_def) blast
  have available: "\<exists>tr. transforms (fst (imageCallback default_config initial_state
                (scenario_frame 1000000000 still SUCCESS True))) = [tr]
          \<and> st_transform tr =
              \<lparr>basis = \<lparr>row0 = \<lparr>vx = - 1, vy = 0, vz = 0\<rparr>,
                        row1 = \<lparr>vx = 0, vy = - 1, vz = 0\<rparr>,
                        row2 = \<lparr>vx = 0, vy = 0, vz = 1\<rparr>\<rparr>,
               origin = \<lparr>vx = 2, vy = 2, vz = 3\<rparr>\<rparr>"
    using base_transform_composition [of "scenario_frame 1000000000 still SUCCESS True"
        default_config initial_state identity_transform]
    by (simp add: scenario_images_ok scenario_fields default_config_def transform_of_def
        setRotation_def Let_def transform_mul_def inverse_transform_def mat_mul_def
        mat_vec_def transpose3_def apply_transform_def identity_matrix_def negate_def dot_def) blast
  show ?thesis
    using unavailable available
    by (simp add: scenario_images_ok scenario_fields default_config_def)
qed

subsection \<open>Claim C8\<close>

text \<open>
  Claim C8. A successful frame with transform publishing enabled, for which the listener
  cannot give the offset, is not failed: the odometry and pose messages are published,
  the transform is broadcast with the identity in place of the offset, so it is the
  sensor pose, and the last stamp becomes the frame's stamp. The warning is printed only
  when 10 time units have passed since the last printed one, and in any run of the node
  each printed warning is at least 10 time units after the one before it.
\<close>

theorem lookup_unavailable_degrades:
  assumes "images_ok f" and "status f = SUCCESS" and "publish_tf cfg" and "\<not> can_transform f"
  shows "\<exists>ev st' m pm tr. imageCallback cfg st f = (ev, Inr st')
     \<and> odom_messages ev = [m] \<and> pose_messages ev = [pm] \<and> transforms ev = [tr]
     \<and> st_transform tr =
         compose_base identity_transform
           (transform_of (pose_rotation (engine_pose f)) (pose_translation (engine_pose f)))
     \<and> st_transform tr =
         transform_of (pose_rotation (engine_pose f)) (pose_translation (engine_pose f))
     \<and> last_time st' = l_stamp f
     \<and> warn_times ev = (if last_hit st + 10 \<le> now f then [now f] else [])
     \<and> last_hit st' = (if last_hit st + 10 \<le> now f then now f else last_hit st)
     \<and> spaced 10 (warn_times (fst (run cfg s fs)))"
proof -
  obtain st' where c: "imageCallback cfg st f = (fst (imageCallback cfg st f), Inr st')"
    and t: "last_time st' = l_stamp f"
    using imageCallback_continues[OF assms(1), of cfg st] assms(2) by auto
  have s: "snd (imageCallback cfg st f) = Inr st'"
    using c by (metis snd_conv)
  define ev where "ev = fst (imageCallback cfg st f)"
  define m where "m = (mount_twist st (motion_estimate f) (l_stamp f)
               (mount_pose cfg (engine_pose f) (l_stamp f)))
              \<lparr>twist_covariance := fill_twist_covariance (motion_cov f) (replicate 36 0)\<rparr>"
  define tr where "tr = \<lparr>st_transform =
               compose_base identity_transform
                 (transform_of (pose_rotation (engine_pose f)) (pose_translation (engine_pose f))),
             st_stamp = l_stamp f, st_frame_id = odom_frame_id cfg,
             st_child_frame_id = base_link_frame_id cfg\<rparr>"
  have 1: "imageCallback cfg st f = (ev, Inr st')"
    using c by (simp add: ev_def)
  have 2: "odom_messages ev = [m]" "pose_messages ev = [pose_of_odom m]" "transforms ev = [tr]"
    using assms
    by (simp_all add: ev_def m_def tr_def imageCallback_odom imageCallback_pose
        imageCallback_transforms)
  have 3: "st_transform tr =
         compose_base identity_transform
           (transform_of (pose_rotation (engine_pose f)) (pose_translation (engine_pose f)))"
    by (simp add: tr_def)
  have 4: "st_transform tr =
         transform_of (pose_rotation (engine_pose f)) (pose_translation (engine_pose f))"
    by (simp add: tr_def compose_base_identity)
  have 5: "warn_times ev = (if last_hit st + 10 \<le> now f then [now f] else [])"
    using assms by (simp add: ev_def imageCallback_warn_times)
  have 6: "last_hit st' = (if last_hit st + 10 \<le> now f then now f else last_hit st)"
    using assms imageCallback_last_hit[OF s] by simp
  have 7: "spaced 10 (warn_times (fst (run cfg s fs)))"
    using run_warn_spaced[of cfg s fs] by blast
  show ?thesis
    using 1 2 3 4 t 5 6 7 by blast
qed

theorem lookup_unavailable_degrades_witness:
  "images_ok (scenario_frame 20000000000 still SUCCESS False)
   \<and> status (scenario_frame 20000000000 still SUCCESS False) = SUCCESS
   \<and> publish_tf default_config
   \<and> \<not> can_transform (scenario_frame 20000000000 still SUCCESS False)
   \<and> (\<exists>ev st' m pm tr.
         imageCallback default_config initial_state
           (scenario_frame 20000000000 still SUCCESS False) = (ev, Inr st')
       \<and> odom_messages ev = [m] \<and> pose_messages ev = [pm] \<and> transforms ev = [tr]
       \<and> st_transform tr =
              \<lparr>basis = \<lparr>row0 = \<lparr>vx = - 1, vy = 0, vz = 0\<rparr>,
                        row1 = \<lparr>vx = 0, vy = - 1, vz = 0\<rparr>,
                        row2 = \<lparr>vx = 0, vy = 0, vz = 1\<rparr>\<rparr>,
               origin = \<lparr>vx = 1, vy = 2, vz = 3\<rparr>\<rparr>
       \<and> last_time st' = 20000000000
       \<and> warn_times ev = [20] \<and> last_hit st' = 20
       \<and> spaced 10 (warn_times (fst (run default_config initial_state
            [scenario_frame 20000000000 still SUCCESS False,
             scenario_frame 25000000000 still SUCCESS False,
             scenario_frame 31000000000 still SUCCESS False]))))
   \<and> warn_times (fst (run default_config initial_state
            [scenario_frame 20000000000 still SUCCESS False,
             scenario_frame 25000000000 still SUCCESS False,
             scenario_frame 31000000000 still SUCCESS False])) = [20, 31]"
proof -
  have run: "warn_times (fst (run default_config initial_state
            [scenario_frame 20000000000 still SUCCESS False,
             scenario_frame 25000000000 still SUCCESS False,
             scenario_frame 31000000000 still SUCCESS False])) = [20, 31]"
    by (simp add: run_Cons_images_ok run_Nil scenario_images_ok warn_times_append
        imageCallback_warn_times next_last_hit scenario_fields default_config_def
        initial_state_def)
  show ?thesis
    using lookup_unavailable_degrades [of "scenario_frame 20000000000 still SUCCESS False"
        default_config initial_state initial_state
        "[scenario_frame 20000000000 still SUCCESS False,
          scenario_frame 25000000000 still SUCCESS False,
          scenario_frame 31000000000 still SUCCESS False]"] run
    by (simp add: scenario_images_ok scenario_fields default_config_def initial_state_def
        compose_base_identity transform_of_def setRotation_def Let_def)
qed

subsection \<open>Claim C9\<close>

text \<open>
  Claim C9. With \<open>publish_tf\<close> disabled no run of the node broadcasts a transform, and its
  odometry messages and pose-only messages are, one by one, those of the same run with
  \<open>publish_tf\<close> enabled; each frame that passes the image checks and succeeds gives
  exactly one of each.
\<close>

theorem publish_tf_disabled:
  "transforms (fst (run (cfg\<lparr>publish_tf := False\<rparr>) st fs)) = []
   \<and> odom_messages (fst (run (cfg\<lparr>publish_tf := False\<rparr>) st fs))
       = odom_messages (fst (run (cfg\<lparr>publish_tf := True\<rparr>) st fs))
   \<and> pose_messages (fst (run (cfg\<lparr>publish_tf := False\<rparr>) st fs))
       = pose_messages (fst (run (cfg\<lparr>publish_tf := True\<rparr>) st fs))
   \<and> length (odom_messages (fst (imageCallback (cfg\<lparr>publish_tf := False\<rparr>) st f)))
       = (if images_ok f \<and> status f = SUCCESS then 1 else 0)
   \<and> length (pose_messages (fst (imageCallback (cfg\<lparr>publish_tf := False\<rparr>) st f)))
       = (if images_ok f \<and> status f = SUCCESS then 1 else 0)"
  using run_without_tf[of "cfg\<lparr>publish_tf := False\<rparr>" st fs]
    run_messages_cong[of st st "cfg\<lparr>publish_tf := False\<rparr>" "cfg\<lparr>publish_tf := True\<rparr>" fs]
  by (simp add: imageCallback_odom imageCallback_pose)

subsection \<open>Claim C10\<close>

text \<open>
  Claim C10. The odometry message and the pose-only message of a successful frame carry
  the position and the orientation of the engine's absolute pose as they are; the offset
  between sensor and base enters the broadcast transform only. Whether \<open>publish_tf\<close> is
  set, and whatever the listener answers, the two messages are the same.
\<close>

theorem pose_unmodified:
  assumes "images_ok f" and "status f = SUCCESS"
  shows "\<exists>m pm. odom_messages (fst (imageCallback cfg st f)) = [m]
     \<and> pose_messages (fst (imageCallback cfg st f)) = [pm]
     \<and> position (pose m) = pose_translation (engine_pose f)
     \<and> orientation (pose m) = pose_rotation (engine_pose f)
     \<and> ps_pose pm = pose m
     \<and> odom_messages (fst (imageCallback (cfg\<lparr>publish_tf := b\<rparr>) st
          (f\<lparr>can_transform := c, lookup_transform := T\<rparr>))) = [m]
     \<and> pose_messages (fst (imageCallback (cfg\<lparr>publish_tf := b\<rparr>) st
          (f\<lparr>can_transform := c, lookup_transform := T\<rparr>))) = [pm]"
proof -
  have "images_ok (f\<lparr>can_transform := c, lookup_transform := T\<rparr>) = images_ok f"
    by (simp add: images_ok_def)
  then have ok: "images_ok (f\<lparr>can_transform := c, lookup_transform := T\<rparr>)"
    using assms(1) by simp
  have same: "mount_pose (cfg\<lparr>publish_tf := b\<rparr>) (engine_pose f) (l_stamp f)
      = mount_pose cfg (engine_pose f) (l_stamp f)"
    by (rule mount_pose_cong) simp_all
  have keep: "position (pose (mount_twist st mo t (mount_pose cfg p t))) = pose_translation p"
    "orientation (pose (mount_twist st mo t (mount_pose cfg p t))) = pose_rotation p" for mo t p
    by (simp_all add: mount_twist_def mount_pose_def Let_def Vector3_copy Quaternion_copy)
  show ?thesis
    using assms ok
    by (simp add: imageCallback_odom imageCallback_pose same keep pose_of_odom_def)
qed

theorem pose_unmodified_witness:
  "images_ok (scenario_frame 1000000000 still SUCCESS True)
   \<and> status (scenario_frame 1000000000 still SUCCESS True) = SUCCESS
   \<and> (\<exists>m pm. odom_messages (fst (imageCallback default_config initial_state
                 (scenario_frame 1000000000 still SUCCESS True))) = [m]
     \<and> pose_messages (fst (imageCallback default_config initial_state
                 (scenario_frame 1000000000 still SUCCESS True))) = [pm]
     \<and> position (pose m) = \<lparr>vx = 1, vy = 2, vz = 3\<rparr>
     \<and> orientation (pose m) = \<lparr>qx = 0, qy = 0, qz = 1, qw = 0\<rparr>
     \<and> ps_pose pm = pose m
     \<and> odom_messages (fst (imageCallback (default_config\<lparr>publish_tf := False\<rparr>) initial_state
          ((scenario_frame 1000000000 still SUCCESS True)
             \<lparr>can_transform := False, lookup_transform := identity_transform\<rparr>))) = [m]
     \<and> pose_messages (fst (imageCallback (default_config\<lparr>publish_tf := False\<rparr>) initial_state
          ((scenario_frame 1000000000 still SUCCESS True)
             \<lparr>can_transform := False, lookup_transform := identity_transform\<rparr>))) = [pm])"
  using pose_unmodified [where f = "scenario_frame 1000000000 still SUCCESS True"
      and cfg = default_config and st = initial_state and b = False and c = False
      and T = identity_transform]
  by (simp add: scenario_images_ok scenario_fields)

end
